theory Spec2Isabelle
  imports Main "HOL-Library.Sublist"
begin

section \<open>JavaScript values\<close>

text \<open>
  The repository holds four variants of one webhook handler:
  \<^item> \<open>src/api/index.js\<close>, first document (lines 1-207): names with suffix \<open>_api\<close>;
  \<^item> \<open>src/api/index.js\<close>, second document (lines 208-337): suffix \<open>_api2\<close>;
  \<^item> \<open>src/index.js\<close>, the session-counter variant: suffix \<open>_idx\<close>;
  \<^item> \<open>src/unnamed/part_000\<close>: suffix \<open>_p0\<close>.

  A value is what \<open>JSON.parse\<close> or an HTTP client hands to the code. The numbers of
  the model are the integers: a number with a fraction is not a value of the model. On
  integers the comparisons with \<open>0\<close> and \<open>-5\<close> are exact, \<open>n - 1\<close> is exact below
  \<open>2^53\<close> in magnitude, and a number prints in plain decimal below \<open>10^21\<close>.
  \<open>JNaN\<close> is the result of a failed numeric conversion. Strings are byte strings: text
  outside ASCII is held as its UTF-8 bytes. An object is an association list whose first
  binding of a key is the property's value.
\<close>

datatype jsval =
    JUndefined
  | JNull
  | JBool bool
  | JNum int
  | JNaN
  | JStr string
  | JArr "jsval list"
  | JObj "(string \<times> jsval) list"

datatype exn =
    Error string
  | TypeError
  | RangeError
  | SyntaxError
  | ReferenceError

text \<open>ToBoolean, as used by \<open>!v\<close>, \<open>a || b\<close> and \<open>a && b\<close>.\<close>

fun truthy :: "jsval \<Rightarrow> bool" where
  "truthy JUndefined = False"
| "truthy JNull = False"
| "truthy (JBool b) = b"
| "truthy (JNum n) = (n \<noteq> 0)"
| "truthy JNaN = False"
| "truthy (JStr s) = (s \<noteq> [])"
| "truthy (JArr xs) = True"
| "truthy (JObj kvs) = True"

definition js_or :: "jsval \<Rightarrow> jsval \<Rightarrow> jsval" where
  "js_or a b = (if truthy a then a else b)"

subsection \<open>ToString\<close>

definition digit_char :: "nat \<Rightarrow> char" where
  "digit_char d = char_of (48 + d mod 10)"

function nat_to_string :: "nat \<Rightarrow> string" where
  "nat_to_string n =
     (if n < 10 then [digit_char n] else nat_to_string (n div 10) @ [digit_char (n mod 10)])"
  by pat_completeness auto
termination
  by (relation "measure (\<lambda>n. n)") auto

declare nat_to_string.simps [simp del]

definition int_to_string :: "int \<Rightarrow> string" where
  "int_to_string i = (if i < 0 then CHR ''-'' # nat_to_string (nat (- i)) else nat_to_string (nat i))"

fun join_comma :: "string list \<Rightarrow> string" where
  "join_comma [] = []"
| "join_comma [s] = s"
| "join_comma (s # t # ts) = s @ CHR '','' # join_comma (t # ts)"

text \<open>
  \<open>String(v)\<close>, which a template literal and \<open>RegExp.prototype.test\<close> apply to their
  argument. An array prints its elements joined by commas, \<open>null\<close> and \<open>undefined\<close>
  elements as the empty string. A parsed object without a key \<open>toString\<close> prints as
  \<open>[object Object]\<close> through the method it inherits. A parsed object with a key
  \<open>toString\<close> has no text: the value of the key hides the inherited method and is not
  a function, the method \<open>valueOf\<close> is hidden by a value that is no function or returns
  the object itself, and the conversion throws a TypeError. So does the conversion of an
  array that holds such an object.
\<close>

fun collect :: "(exn + 'a) list \<Rightarrow> exn + 'a list" where
  "collect [] = Inr []"
| "collect (r # rs) =
     (case r of
        Inl e \<Rightarrow> Inl e
      | Inr x \<Rightarrow> (case collect rs of Inl e \<Rightarrow> Inl e | Inr xs \<Rightarrow> Inr (x # xs)))"

fun js_to_string :: "jsval \<Rightarrow> exn + string" where
  "js_to_string JUndefined = Inr ''undefined''"
| "js_to_string JNull = Inr ''null''"
| "js_to_string (JBool b) = Inr (if b then ''true'' else ''false'')"
| "js_to_string (JNum n) = Inr (int_to_string n)"
| "js_to_string JNaN = Inr ''NaN''"
| "js_to_string (JStr s) = Inr s"
| "js_to_string (JArr xs) =
     (case collect
             (map (\<lambda>x. if x = JUndefined \<or> x = JNull then Inr [] else js_to_string x) xs) of
        Inl e \<Rightarrow> Inl e
      | Inr ss \<Rightarrow> Inr (join_comma ss))"
| "js_to_string (JObj kvs) =
     (if map_of kvs ''toString'' \<noteq> None then Inl TypeError else Inr ''[object Object]'')"

text \<open>The values that have a text.\<close>

definition converts :: "jsval \<Rightarrow> bool" where
  "converts v = (case js_to_string v of Inl e \<Rightarrow> False | Inr s \<Rightarrow> True)"

subsection \<open>Property access\<close>

text \<open>
  \<open>get_member v k\<close> is \<open>v[k]\<close> for a \<open>v\<close> that is neither \<open>null\<close> nor \<open>undefined\<close>. It
  is applied to payloads and upstream replies with the keys \<open>customer\<close>, \<open>order\<close>,
  \<open>checkout\<close>, \<open>billing_address\<close>, \<open>shipping_address\<close>, \<open>phone\<close>, \<open>order_number\<close>,
  \<open>financial_status\<close>, \<open>Status\<close> and \<open>SMSID\<close> only; none of them is a member of a
  built-in prototype, so the lookup finds an own property of an object or nothing.
\<close>

definition get_member :: "jsval \<Rightarrow> string \<Rightarrow> jsval" where
  "get_member v k =
     (case v of
        JObj kvs \<Rightarrow> (case map_of kvs k of Some x \<Rightarrow> x | None \<Rightarrow> JUndefined)
      | _ \<Rightarrow> JUndefined)"

text \<open>\<open>v?.[k]\<close>: no property is read from \<open>null\<close> or \<open>undefined\<close>.\<close>

definition opt_chain :: "jsval \<Rightarrow> string \<Rightarrow> jsval" where
  "opt_chain v k = (if v = JNull \<or> v = JUndefined then JUndefined else get_member v k)"

text \<open>\<open>v.k\<close>: reading a property of \<open>null\<close> or \<open>undefined\<close> throws a TypeError.\<close>

definition get_prop :: "jsval \<Rightarrow> string \<Rightarrow> exn + jsval" where
  "get_prop v k = (if v = JNull \<or> v = JUndefined then Inl TypeError else Inr (get_member v k))"

section \<open>Payload extractor\<close>

definition is_digit :: "char \<Rightarrow> bool" where
  "is_digit c = (c \<in> set ''0123456789'')"

text \<open>The regular expression \<open>/^\+?[0-9]{8,15}$/\<close> on a string.\<close>

definition phoneRegex :: "string \<Rightarrow> bool" where
  "phoneRegex s =
     (let ds = (case s of [] \<Rightarrow> [] | c # r \<Rightarrow> if c = CHR ''+'' then r else s)
      in 8 \<le> length ds \<and> length ds \<le> 15 \<and> list_all is_digit ds)"

text \<open>\<open>phoneRegex.test(phone)\<close> converts its argument to a string first.\<close>

definition isValidPhone :: "jsval \<Rightarrow> exn + bool" where
  "isValidPhone phone =
     (case js_to_string phone of Inl e \<Rightarrow> Inl e | Inr s \<Rightarrow> Inr (phoneRegex s))"

text \<open>\<open>path.split(".")\<close>\<close>

fun split_dot_acc :: "string \<Rightarrow> string \<Rightarrow> string list" where
  "split_dot_acc acc [] = [rev acc]"
| "split_dot_acc acc (c # cs) =
     (if c = CHR ''.'' then rev acc # split_dot_acc [] cs else split_dot_acc (c # acc) cs)"

definition split_dot :: "string \<Rightarrow> string list" where
  "split_dot s = split_dot_acc [] s"

text \<open>\<open>path.split(".").reduce((obj, key) => obj?.[key], data)\<close>\<close>

definition resolve_path :: "jsval \<Rightarrow> string \<Rightarrow> jsval" where
  "resolve_path data path = foldl opt_chain data (split_dot path)"

definition phonePaths :: "string list" where
  "phonePaths =
     [''customer.phone'',
      ''order.customer.phone'',
      ''checkout.billing_address.phone'',
      ''billing_address.phone'',
      ''shipping_address.phone'']"

text \<open>The \<open>for (const path of phonePaths)\<close> loop of \<open>src/api/index.js\<close>, lines 136-141.\<close>

fun phone_loop :: "jsval \<Rightarrow> string list \<Rightarrow> exn + jsval" where
  "phone_loop data [] = Inr JNull"
| "phone_loop data (path # paths) =
     (let v = resolve_path data path
      in if truthy v
         then (case isValidPhone v of
                 Inl e \<Rightarrow> Inl e
               | Inr valid \<Rightarrow> if valid then Inr v else phone_loop data paths)
         else phone_loop data paths)"

definition extractPhoneNumber_api :: "jsval \<Rightarrow> exn + jsval" where
  "extractPhoneNumber_api data = phone_loop data phonePaths"

text \<open>\<open>src/unnamed/part_000\<close>, lines 90-96: three paths, no pattern check.\<close>

definition extractPhoneNumber_p0 :: "jsval \<Rightarrow> jsval" where
  "extractPhoneNumber_p0 data =
     js_or (opt_chain (opt_chain data ''customer'') ''phone'')
       (js_or (opt_chain (opt_chain (opt_chain data ''order'') ''customer'') ''phone'')
         (opt_chain (opt_chain (opt_chain data ''checkout'') ''billing_address'') ''phone''))"

section \<open>Text literals of the sources\<close>

text \<open>
  The string literals of the four sources that are not plain ASCII, as UTF-8 bytes. A
  template literal is cut at its \<open>${...}\<close> holes: \<open>tpl_create_api_1\<close> is the text before
  the first hole of the \<open>orders/create\<close> template of \<open>src/api/index.js\<close> (first
  document), \<open>tpl_create_api_2\<close> the text after it, and so on.
\<close>

definition tpl_create_api_1 :: string where
  "tpl_create_api_1 =
    [CHR 0xF0, CHR 0x9F, CHR 0x93, CHR 0xA6, CHR '' '', CHR 0xD8, CHR 0xAA, CHR 0xD9, CHR 0x85,
    CHR '' '', CHR 0xD8, CHR 0xAA, CHR 0xD8, CHR 0xA3, CHR 0xD9, CHR 0x83, CHR 0xD9, CHR 0x8A,
    CHR 0xD8, CHR 0xAF, CHR '' '', CHR 0xD8, CHR 0xB7, CHR 0xD9, CHR 0x84, CHR 0xD8, CHR 0xA8,
    CHR 0xD9, CHR 0x83, CHR '' '', CHR ''#'']"

definition tpl_create_api_2 :: string where
  "tpl_create_api_2 =
    [CHR ''!'', CHR '' '', CHR 0xD8, CHR 0xB4, CHR 0xD9, CHR 0x83, CHR 0xD8, CHR 0xB1, CHR 0xD8,
    CHR 0xA7, CHR 0xD9, CHR 0x8B, CHR '' '', CHR 0xD9, CHR 0x84, CHR 0xD8, CHR 0xAB, CHR 0xD9,
    CHR 0x82, CHR 0xD8, CHR 0xAA, CHR 0xD9, CHR 0x83]"

definition tpl_cancelled_api_1 :: string where
  "tpl_cancelled_api_1 =
    [CHR 0xE2, CHR 0x9A, CHR 0xA0, CHR 0xEF, CHR 0xB8, CHR 0x8F, CHR '' '', CHR 0xD8, CHR 0xA5,
    CHR 0xD9, CHR 0x84, CHR 0xD8, CHR 0xBA, CHR 0xD8, CHR 0xA7, CHR 0xD8, CHR 0xA1, CHR '' '',
    CHR 0xD8, CHR 0xA7, CHR 0xD9, CHR 0x84, CHR 0xD8, CHR 0xB7, CHR 0xD9, CHR 0x84, CHR 0xD8,
    CHR 0xA8, CHR '' '', CHR ''#'']"

definition tpl_cancelled_api_2 :: string where
  "tpl_cancelled_api_2 =
    [CHR 0xD8, CHR 0x8C, CHR '' '', CHR 0xD9, CHR 0x84, CHR 0xD9, CHR 0x84, CHR 0xD8, CHR 0xA7,
    CHR 0xD8, CHR 0xB3, CHR 0xD8, CHR 0xAA, CHR 0xD9, CHR 0x81, CHR 0xD8, CHR 0xB3, CHR 0xD8,
    CHR 0xA7, CHR 0xD8, CHR 0xB1, CHR '':'', CHR '' '']"

definition tpl_updated_api_1 :: string where
  "tpl_updated_api_1 =
    [CHR 0xF0, CHR 0x9F, CHR 0x94, CHR 0x84, CHR '' '', CHR 0xD8, CHR 0xAA, CHR 0xD8, CHR 0xAD,
    CHR 0xD8, CHR 0xAF, CHR 0xD9, CHR 0x8A, CHR 0xD8, CHR 0xAB, CHR '' '', CHR 0xD8, CHR 0xAD,
    CHR 0xD8, CHR 0xA7, CHR 0xD9, CHR 0x84, CHR 0xD8, CHR 0xA9, CHR '' '', CHR 0xD8, CHR 0xA7,
    CHR 0xD9, CHR 0x84, CHR 0xD8, CHR 0xB7, CHR 0xD9, CHR 0x84, CHR 0xD8, CHR 0xA8, CHR '' '',
    CHR ''#'']"

definition tpl_updated_api_2 :: string where
  "tpl_updated_api_2 =
    [CHR '':'', CHR '' '']"

definition tpl_paid_api_1 :: string where
  "tpl_paid_api_1 =
    [CHR 0xF0, CHR 0x9F, CHR 0x92, CHR 0xB3, CHR '' '', CHR 0xD8, CHR 0xAA, CHR 0xD9, CHR 0x85,
    CHR '' '', CHR 0xD8, CHR 0xAF, CHR 0xD9, CHR 0x81, CHR 0xD8, CHR 0xB9, CHR '' '', CHR 0xD8,
    CHR 0xB7, CHR 0xD9, CHR 0x84, CHR 0xD8, CHR 0xA8, CHR 0xD9, CHR 0x83, CHR '' '', CHR ''#'']"

definition tpl_fulfilled_api_1 :: string where
  "tpl_fulfilled_api_1 =
    [CHR 0xF0, CHR 0x9F, CHR 0x9A, CHR 0x9A, CHR '' '', CHR 0xD8, CHR 0xAA, CHR 0xD9, CHR 0x85,
    CHR '' '', CHR 0xD8, CHR 0xB4, CHR 0xD8, CHR 0xAD, CHR 0xD9, CHR 0x86, CHR '' '', CHR 0xD8,
    CHR 0xB7, CHR 0xD9, CHR 0x84, CHR 0xD8, CHR 0xA8, CHR 0xD9, CHR 0x83, CHR '' '', CHR ''#'']"

definition tpl_create_api2_1 :: string where
  "tpl_create_api2_1 =
    [CHR 0xF0, CHR 0x9F, CHR 0x93, CHR 0xA6, CHR '' '', CHR 0xD8, CHR 0xAA, CHR 0xD9, CHR 0x85,
    CHR '' '', CHR 0xD8, CHR 0xAA, CHR 0xD8, CHR 0xA3, CHR 0xD9, CHR 0x83, CHR 0xD9, CHR 0x8A,
    CHR 0xD8, CHR 0xAF, CHR '' '', CHR 0xD8, CHR 0xB7, CHR 0xD9, CHR 0x84, CHR 0xD8, CHR 0xA8,
    CHR 0xD9, CHR 0x83, CHR '' '', CHR ''#'']"

definition tpl_create_api2_2 :: string where
  "tpl_create_api2_2 =
    [CHR ''!'', CHR '' '', CHR 0xD8, CHR 0xB4, CHR 0xD9, CHR 0x83, CHR 0xD8, CHR 0xB1, CHR 0xD8,
    CHR 0xA7, CHR 0xD9, CHR 0x8B, CHR '' '', CHR 0xD9, CHR 0x84, CHR 0xD9, CHR 0x83, CHR ''.'']"

definition tpl_cancelled_api2_1 :: string where
  "tpl_cancelled_api2_1 =
    [CHR 0xE2, CHR 0x9A, CHR 0xA0, CHR 0xEF, CHR 0xB8, CHR 0x8F, CHR '' '', CHR 0xD8, CHR 0xAA,
    CHR 0xD9, CHR 0x85, CHR '' '', CHR 0xD8, CHR 0xA5, CHR 0xD9, CHR 0x84, CHR 0xD8, CHR 0xBA,
    CHR 0xD8, CHR 0xA7, CHR 0xD8, CHR 0xA1, CHR '' '', CHR 0xD8, CHR 0xB7, CHR 0xD9, CHR 0x84,
    CHR 0xD8, CHR 0xA8, CHR 0xD9, CHR 0x83, CHR '' '', CHR ''#'']"

definition tpl_cancelled_api2_2 :: string where
  "tpl_cancelled_api2_2 =
    [CHR ''.'', CHR '' '', CHR 0xD9, CHR 0x84, CHR 0xD9, CHR 0x84, CHR 0xD8, CHR 0xAA, CHR 0xD9,
    CHR 0x88, CHR 0xD8, CHR 0xA7, CHR 0xD8, CHR 0xB5, CHR 0xD9, CHR 0x84, CHR '':'', CHR '' '']"

definition tpl_updated_api2_1 :: string where
  "tpl_updated_api2_1 =
    [CHR 0xF0, CHR 0x9F, CHR 0x94, CHR 0x84, CHR '' '', CHR 0xD8, CHR 0xAA, CHR 0xD9, CHR 0x85,
    CHR '' '', CHR 0xD8, CHR 0xAA, CHR 0xD8, CHR 0xAD, CHR 0xD8, CHR 0xAF, CHR 0xD9, CHR 0x8A,
    CHR 0xD8, CHR 0xAB, CHR '' '', CHR 0xD8, CHR 0xAD, CHR 0xD8, CHR 0xA7, CHR 0xD9, CHR 0x84,
    CHR 0xD8, CHR 0xA9, CHR '' '', CHR 0xD8, CHR 0xA7, CHR 0xD9, CHR 0x84, CHR 0xD8, CHR 0xB7,
    CHR 0xD9, CHR 0x84, CHR 0xD8, CHR 0xA8, CHR '' '', CHR ''#'']"

definition tpl_updated_api2_2 :: string where
  "tpl_updated_api2_2 =
    [CHR ''.'']"

definition tpl_fulfilled_api2_1 :: string where
  "tpl_fulfilled_api2_1 =
    [CHR 0xF0, CHR 0x9F, CHR 0x9A, CHR 0x9A, CHR '' '', CHR 0xD8, CHR 0xAA, CHR 0xD9, CHR 0x85,
    CHR '' '', CHR 0xD8, CHR 0xB4, CHR 0xD8, CHR 0xAD, CHR 0xD9, CHR 0x86, CHR '' '', CHR 0xD8,
    CHR 0xB7, CHR 0xD9, CHR 0x84, CHR 0xD8, CHR 0xA8, CHR 0xD9, CHR 0x83, CHR '' '', CHR ''#'']"

definition tpl_fulfilled_api2_2 :: string where
  "tpl_fulfilled_api2_2 =
    [CHR ''.'']"

definition tpl_paid_api2_1 :: string where
  "tpl_paid_api2_1 =
    [CHR 0xF0, CHR 0x9F, CHR 0x92, CHR 0xB3, CHR '' '', CHR 0xD8, CHR 0xAA, CHR 0xD9, CHR 0x85,
    CHR '' '', CHR 0xD8, CHR 0xAF, CHR 0xD9, CHR 0x81, CHR 0xD8, CHR 0xB9, CHR '' '', CHR 0xD8,
    CHR 0xB7, CHR 0xD9, CHR 0x84, CHR 0xD8, CHR 0xA8, CHR 0xD9, CHR 0x83, CHR '' '', CHR ''#'']"

definition tpl_paid_api2_2 :: string where
  "tpl_paid_api2_2 =
    [CHR ''.'']"

definition tpl_create_p0_1 :: string where
  "tpl_create_p0_1 =
    [CHR 0xF0, CHR 0x9F, CHR 0x93, CHR 0xA6, CHR '' '', CHR 0xD8, CHR 0xAA, CHR 0xD9, CHR 0x85,
    CHR '' '', CHR 0xD8, CHR 0xAA, CHR 0xD8, CHR 0xA3, CHR 0xD9, CHR 0x83, CHR 0xD9, CHR 0x8A,
    CHR 0xD8, CHR 0xAF, CHR '' '', CHR 0xD8, CHR 0xB7, CHR 0xD9, CHR 0x84, CHR 0xD8, CHR 0xA8,
    CHR 0xD9, CHR 0x83, CHR '' '', CHR ''#'']"

definition tpl_create_p0_2 :: string where
  "tpl_create_p0_2 =
    [CHR ''!'', CHR '' '', CHR 0xD8, CHR 0xB4, CHR 0xD9, CHR 0x83, CHR 0xD8, CHR 0xB1, CHR 0xD8,
    CHR 0xA7, CHR 0xD9, CHR 0x8B, CHR '' '', CHR 0xD9, CHR 0x84, CHR 0xD8, CHR 0xA7, CHR 0xD8,
    CHR 0xAE, CHR 0xD8, CHR 0xAA, CHR 0xD9, CHR 0x8A, CHR 0xD8, CHR 0xA7, CHR 0xD8, CHR 0xB1,
    CHR 0xD9, CHR 0x83, CHR '' '', CHR 0xD9, CHR 0x85, CHR 0xD8, CHR 0xAA, CHR 0xD8, CHR 0xAC,
    CHR 0xD8, CHR 0xB1, CHR 0xD9, CHR 0x86, CHR 0xD8, CHR 0xA7]"

definition tpl_cancelled_p0_1 :: string where
  "tpl_cancelled_p0_1 =
    [CHR 0xE2, CHR 0x9A, CHR 0xA0, CHR 0xEF, CHR 0xB8, CHR 0x8F, CHR '' '', CHR 0xD9, CHR 0x86,
    CHR 0xD8, CHR 0xA3, CHR 0xD8, CHR 0xB3, CHR 0xD9, CHR 0x81, CHR '' '', CHR 0xD9, CHR 0x84,
    CHR 0xD8, CHR 0xA5, CHR 0xD9, CHR 0x84, CHR 0xD8, CHR 0xBA, CHR 0xD8, CHR 0xA7, CHR 0xD8,
    CHR 0xA1, CHR '' '', CHR 0xD8, CHR 0xB7, CHR 0xD9, CHR 0x84, CHR 0xD8, CHR 0xA8, CHR 0xD9,
    CHR 0x83, CHR '' '', CHR ''#'']"

definition tpl_cancelled_p0_2 :: string where
  "tpl_cancelled_p0_2 =
    [CHR ''.'', CHR '' '', CHR 0xD9, CHR 0x84, CHR 0xD9, CHR 0x84, CHR 0xD8, CHR 0xA7, CHR 0xD8,
    CHR 0xB3, CHR 0xD8, CHR 0xAA, CHR 0xD9, CHR 0x81, CHR 0xD8, CHR 0xB3, CHR 0xD8, CHR 0xA7,
    CHR 0xD8, CHR 0xB1, CHR '':'', CHR '' '']"

definition tpl_updated_p0_1 :: string where
  "tpl_updated_p0_1 =
    [CHR 0xF0, CHR 0x9F, CHR 0x94, CHR 0x84, CHR '' '', CHR 0xD8, CHR 0xAA, CHR 0xD9, CHR 0x85,
    CHR '' '', CHR 0xD8, CHR 0xAA, CHR 0xD8, CHR 0xAD, CHR 0xD8, CHR 0xAF, CHR 0xD9, CHR 0x8A,
    CHR 0xD8, CHR 0xAB, CHR '' '', CHR 0xD8, CHR 0xAD, CHR 0xD8, CHR 0xA7, CHR 0xD9, CHR 0x84,
    CHR 0xD8, CHR 0xA9, CHR '' '', CHR 0xD8, CHR 0xB7, CHR 0xD9, CHR 0x84, CHR 0xD8, CHR 0xA8,
    CHR 0xD9, CHR 0x83, CHR '' '', CHR ''#'']"

definition tpl_updated_p0_2 :: string where
  "tpl_updated_p0_2 =
    [CHR '' '', CHR 0xD8, CHR 0xA5, CHR 0xD9, CHR 0x84, CHR 0xD9, CHR 0x89, CHR '':'', CHR '' '']"

definition err_method_api :: string where
  "err_method_api =
    [CHR 0xD8, CHR 0xA7, CHR 0xD9, CHR 0x84, CHR 0xD8, CHR 0xB7, CHR 0xD8, CHR 0xB1, CHR 0xD9,
    CHR 0x8A, CHR 0xD9, CHR 0x82, CHR 0xD8, CHR 0xA9, CHR '' '', CHR 0xD8, CHR 0xBA, CHR 0xD9,
    CHR 0x8A, CHR 0xD8, CHR 0xB1, CHR '' '', CHR 0xD9, CHR 0x85, CHR 0xD8, CHR 0xB3, CHR 0xD9,
    CHR 0x85, CHR 0xD9, CHR 0x88, CHR 0xD8, CHR 0xAD, CHR 0xD8, CHR 0xA9]"

definition err_headers_api :: string where
  "err_headers_api =
    [CHR 0xD9, CHR 0x87, CHR 0xD9, CHR 0x8A, CHR 0xD8, CHR 0xAF, CHR 0xD8, CHR 0xB1, CHR 0xD8,
    CHR 0xA7, CHR 0xD8, CHR 0xAA, CHR '' '', CHR 0xD9, CHR 0x85, CHR 0xD8, CHR 0xB7, CHR 0xD9,
    CHR 0x84, CHR 0xD9, CHR 0x88, CHR 0xD8, CHR 0xA8, CHR 0xD8, CHR 0xA9, CHR '' '', CHR 0xD9,
    CHR 0x85, CHR 0xD9, CHR 0x81, CHR 0xD9, CHR 0x82, CHR 0xD9, CHR 0x88, CHR 0xD8, CHR 0xAF,
    CHR 0xD8, CHR 0xA9]"

definition err_hmac_api :: string where
  "err_hmac_api =
    [CHR 0xD8, CHR 0xAA, CHR 0xD9, CHR 0x88, CHR 0xD9, CHR 0x82, CHR 0xD9, CHR 0x8A, CHR 0xD8,
    CHR 0xB9, CHR '' '', CHR 0xD8, CHR 0xBA, CHR 0xD9, CHR 0x8A, CHR 0xD8, CHR 0xB1, CHR '' '',
    CHR 0xD8, CHR 0xB5, CHR 0xD8, CHR 0xA7, CHR 0xD9, CHR 0x84, CHR 0xD8, CHR 0xAD]"

definition err_phone_api :: string where
  "err_phone_api =
    [CHR 0xD8, CHR 0xB1, CHR 0xD9, CHR 0x82, CHR 0xD9, CHR 0x85, CHR '' '', CHR 0xD8, CHR 0xA7,
    CHR 0xD9, CHR 0x84, CHR 0xD9, CHR 0x87, CHR 0xD8, CHR 0xA7, CHR 0xD8, CHR 0xAA, CHR 0xD9,
    CHR 0x81, CHR '' '', CHR 0xD8, CHR 0xBA, CHR 0xD9, CHR 0x8A, CHR 0xD8, CHR 0xB1, CHR '' '',
    CHR 0xD9, CHR 0x85, CHR 0xD9, CHR 0x88, CHR 0xD8, CHR 0xAC, CHR 0xD9, CHR 0x88, CHR 0xD8,
    CHR 0xAF]"

definition err_quota_api :: string where
  "err_quota_api =
    [CHR 0xD9, CHR 0x86, CHR 0xD9, CHR 0x81, CHR 0xD8, CHR 0xA7, CHR 0xD8, CHR 0xAF, CHR '' '',
    CHR 0xD8, CHR 0xA7, CHR 0xD9, CHR 0x84, CHR 0xD8, CHR 0xAD, CHR 0xD8, CHR 0xB5, CHR 0xD8,
    CHR 0xA9, CHR '' '', CHR 0xD8, CHR 0xA7, CHR 0xD9, CHR 0x84, CHR 0xD9, CHR 0x85, CHR 0xD8,
    CHR 0xB3, CHR 0xD9, CHR 0x85, CHR 0xD9, CHR 0x88, CHR 0xD8, CHR 0xAD, CHR 0xD8, CHR 0xA9]"

definition err_event_api :: string where
  "err_event_api =
    [CHR 0xD9, CHR 0x86, CHR 0xD9, CHR 0x88, CHR 0xD8, CHR 0xB9, CHR '' '', CHR 0xD8, CHR 0xA7,
    CHR 0xD9, CHR 0x84, CHR 0xD8, CHR 0xAD, CHR 0xD8, CHR 0xAF, CHR 0xD8, CHR 0xAB, CHR '' '',
    CHR 0xD8, CHR 0xBA, CHR 0xD9, CHR 0x8A, CHR 0xD8, CHR 0xB1, CHR '' '', CHR 0xD9, CHR 0x85,
    CHR 0xD8, CHR 0xAF, CHR 0xD8, CHR 0xB9, CHR 0xD9, CHR 0x88, CHR 0xD9, CHR 0x85]"

definition ok_message_api :: string where
  "ok_message_api =
    [CHR 0xD8, CHR 0xAA, CHR 0xD9, CHR 0x85, CHR '' '', CHR 0xD8, CHR 0xA5, CHR 0xD8, CHR 0xB1,
    CHR 0xD8, CHR 0xB3, CHR 0xD8, CHR 0xA7, CHR 0xD9, CHR 0x84, CHR '' '', CHR 0xD8, CHR 0xA7,
    CHR 0xD9, CHR 0x84, CHR 0xD8, CHR 0xB1, CHR 0xD8, CHR 0xB3, CHR 0xD8, CHR 0xA7, CHR 0xD9,
    CHR 0x84, CHR 0xD8, CHR 0xA9, CHR '' '', CHR 0xD8, CHR 0xA8, CHR 0xD9, CHR 0x86, CHR 0xD8,
    CHR 0xAC, CHR 0xD8, CHR 0xA7, CHR 0xD8, CHR 0xAD]"

definition err_internal_api :: string where
  "err_internal_api =
    [CHR 0xD8, CHR 0xAE, CHR 0xD8, CHR 0xB7, CHR 0xD8, CHR 0xA3, CHR '' '', CHR 0xD8, CHR 0xAF,
    CHR 0xD8, CHR 0xA7, CHR 0xD8, CHR 0xAE, CHR 0xD9, CHR 0x84, CHR 0xD9, CHR 0x8A]"

definition err_secret_api :: string where
  "err_secret_api =
    [CHR ''S'', CHR ''H'', CHR ''O'', CHR ''P'', CHR ''I'', CHR ''F'', CHR ''Y'', CHR ''_'',
    CHR ''W'', CHR ''E'', CHR ''B'', CHR ''H'', CHR ''O'', CHR ''O'', CHR ''K'', CHR ''_'',
    CHR ''S'', CHR ''E'', CHR ''C'', CHR ''R'', CHR ''E'', CHR ''T'', CHR '' '', CHR 0xD8,
    CHR 0xBA, CHR 0xD9, CHR 0x8A, CHR 0xD8, CHR 0xB1, CHR '' '', CHR 0xD9, CHR 0x85, CHR 0xD9,
    CHR 0x88, CHR 0xD8, CHR 0xAC, CHR 0xD9, CHR 0x88, CHR 0xD8, CHR 0xAF]"

definition err_credit_invalid_api :: string where
  "err_credit_invalid_api =
    [CHR 0xD8, CHR 0xA7, CHR 0xD8, CHR 0xB3, CHR 0xD8, CHR 0xAA, CHR 0xD8, CHR 0xAC, CHR 0xD8,
    CHR 0xA7, CHR 0xD8, CHR 0xA8, CHR 0xD8, CHR 0xA9, CHR '' '', CHR 0xD8, CHR 0xBA, CHR 0xD9,
    CHR 0x8A, CHR 0xD8, CHR 0xB1, CHR '' '', CHR 0xD8, CHR 0xB5, CHR 0xD8, CHR 0xA7, CHR 0xD9,
    CHR 0x84, CHR 0xD8, CHR 0xAD, CHR 0xD8, CHR 0xA9, CHR '' '', CHR 0xD9, CHR 0x85, CHR 0xD9,
    CHR 0x86, CHR '' '', CHR 0xD8, CHR 0xAE, CHR 0xD8, CHR 0xAF, CHR 0xD9, CHR 0x85, CHR 0xD8,
    CHR 0xA9, CHR '' '', CHR 0xD8, CHR 0xA7, CHR 0xD9, CHR 0x84, CHR 0xD8, CHR 0xB1, CHR 0xD8,
    CHR 0xB3, CHR 0xD8, CHR 0xA7, CHR 0xD8, CHR 0xA6, CHR 0xD9, CHR 0x84]"

definition err_credit_failed_api :: string where
  "err_credit_failed_api =
    [CHR 0xD9, CHR 0x81, CHR 0xD8, CHR 0xB4, CHR 0xD9, CHR 0x84, CHR '' '', CHR 0xD8, CHR 0xA7,
    CHR 0xD9, CHR 0x84, CHR 0xD8, CHR 0xAA, CHR 0xD8, CHR 0xAD, CHR 0xD9, CHR 0x82, CHR 0xD9,
    CHR 0x82, CHR '' '', CHR 0xD9, CHR 0x85, CHR 0xD9, CHR 0x86, CHR '' '', CHR 0xD8, CHR 0xA7,
    CHR 0xD9, CHR 0x84, CHR 0xD8, CHR 0xB1, CHR 0xD8, CHR 0xB5, CHR 0xD9, CHR 0x8A, CHR 0xD8,
    CHR 0xAF]"

definition err_sms_failed_api :: string where
  "err_sms_failed_api =
    [CHR 0xD9, CHR 0x81, CHR 0xD8, CHR 0xB4, CHR 0xD9, CHR 0x84, CHR '' '', CHR 0xD8, CHR 0xA5,
    CHR 0xD8, CHR 0xB1, CHR 0xD8, CHR 0xB3, CHR 0xD8, CHR 0xA7, CHR 0xD9, CHR 0x84, CHR '' '',
    CHR 0xD8, CHR 0xA7, CHR 0xD9, CHR 0x84, CHR 0xD8, CHR 0xB1, CHR 0xD8, CHR 0xB3, CHR 0xD8,
    CHR 0xA7, CHR 0xD9, CHR 0x84, CHR 0xD8, CHR 0xA9]"

definition placeholder_api2 :: string where
  "placeholder_api2 =
    [CHR 0xD8, CHR 0xA8, CHR 0xD8, CHR 0xAF, CHR 0xD9, CHR 0x88, CHR 0xD9, CHR 0x86, CHR '' '',
    CHR 0xD8, CHR 0xB1, CHR 0xD9, CHR 0x82, CHR 0xD9, CHR 0x85]"

definition err_sentinel_idx :: string where
  "err_sentinel_idx =
    [CHR 0xD8, CHR 0xA7, CHR 0xD9, CHR 0x84, CHR 0xD8, CHR 0xAD, CHR 0xD8, CHR 0xB5, CHR 0xD8,
    CHR 0xA9, CHR '' '', CHR 0xD9, CHR 0x86, CHR 0xD9, CHR 0x81, CHR 0xD8, CHR 0xB0, CHR 0xD8,
    CHR 0xAA]"

definition err_ceiling_idx :: string where
  "err_ceiling_idx =
    [CHR 0xD9, CHR 0x84, CHR 0xD9, CHR 0x82, CHR 0xD8, CHR 0xAF, CHR '' '', CHR 0xD9, CHR 0x88,
    CHR 0xD8, CHR 0xB5, CHR 0xD9, CHR 0x84, CHR 0xD8, CHR 0xAA, CHR '' '', CHR 0xD8, CHR 0xA5,
    CHR 0xD9, CHR 0x84, CHR 0xD9, CHR 0x89, CHR '' '', CHR 0xD8, CHR 0xA7, CHR 0xD9, CHR 0x84,
    CHR 0xD8, CHR 0xAD, CHR 0xD8, CHR 0xAF, CHR '' '', CHR 0xD8, CHR 0xA7, CHR 0xD9, CHR 0x84,
    CHR 0xD8, CHR 0xA3, CHR 0xD9, CHR 0x82, CHR 0xD8, CHR 0xB5, CHR 0xD9, CHR 0x89, CHR '' '',
    CHR 0xD9, CHR 0x84, CHR 0xD9, CHR 0x84, CHR 0xD8, CHR 0xB1, CHR 0xD8, CHR 0xB3, CHR 0xD8,
    CHR 0xA7, CHR 0xD8, CHR 0xA6, CHR 0xD9, CHR 0x84]"

definition err_send_prefix_idx :: string where
  "err_send_prefix_idx =
    [CHR 0xD9, CHR 0x81, CHR 0xD8, CHR 0xB4, CHR 0xD9, CHR 0x84, CHR '' '', CHR 0xD8, CHR 0xA7,
    CHR 0xD9, CHR 0x84, CHR 0xD8, CHR 0xA5, CHR 0xD8, CHR 0xB1, CHR 0xD8, CHR 0xB3, CHR 0xD8,
    CHR 0xA7, CHR 0xD9, CHR 0x84, CHR '':'', CHR '' '']"

definition err_sentinel_p0 :: string where
  "err_sentinel_p0 =
    [CHR 0xD8, CHR 0xA7, CHR 0xD9, CHR 0x84, CHR 0xD8, CHR 0xAD, CHR 0xD8, CHR 0xB5, CHR 0xD8,
    CHR 0xA9, CHR '' '', CHR 0xD9, CHR 0x86, CHR 0xD9, CHR 0x81, CHR 0xD8, CHR 0xB0, CHR 0xD8,
    CHR 0xAA]"

definition err_credit_prefix_p0 :: string where
  "err_credit_prefix_p0 =
    [CHR 0xD9, CHR 0x81, CHR 0xD8, CHR 0xB4, CHR 0xD9, CHR 0x84, CHR '' '', CHR 0xD8, CHR 0xA7,
    CHR 0xD9, CHR 0x84, CHR 0xD8, CHR 0xAA, CHR 0xD8, CHR 0xAD, CHR 0xD9, CHR 0x82, CHR 0xD9,
    CHR 0x82, CHR '' '', CHR 0xD9, CHR 0x85, CHR 0xD9, CHR 0x86, CHR '' '', CHR 0xD8, CHR 0xA7,
    CHR 0xD9, CHR 0x84, CHR 0xD8, CHR 0xB1, CHR 0xD8, CHR 0xB5, CHR 0xD9, CHR 0x8A, CHR 0xD8,
    CHR 0xAF, CHR '':'', CHR '' '']"

definition err_sms_prefix_p0 :: string where
  "err_sms_prefix_p0 =
    [CHR 0xD9, CHR 0x81, CHR 0xD8, CHR 0xB4, CHR 0xD9, CHR 0x84, CHR '' '', CHR 0xD8, CHR 0xA5,
    CHR 0xD8, CHR 0xB1, CHR 0xD8, CHR 0xB3, CHR 0xD8, CHR 0xA7, CHR 0xD9, CHR 0x84, CHR '' '',
    CHR 0xD8, CHR 0xA7, CHR 0xD9, CHR 0x84, CHR 0xD8, CHR 0xB1, CHR 0xD8, CHR 0xB3, CHR 0xD8,
    CHR 0xA7, CHR 0xD9, CHR 0x84, CHR 0xD8, CHR 0xA9, CHR '':'', CHR '' '']"

section \<open>The surroundings of a request\<close>

text \<open>
  What the code reads from outside itself while it serves one request: environment
  variables, functions of the runtime that are taken as given (\<open>crypto\<close>'s HMAC-SHA256,
  base64 decoding of \<open>Buffer.from\<close>, \<open>JSON.parse\<close>, \<open>JSON.stringify\<close>, the numeric
  value of a string), and the answers of the two upstream services. \<open>axios.post\<close>
  either rejects with an error, whose message is the \<open>Inl\<close> value, or resolves with a
  response whose \<open>data\<close> is the \<open>Inr\<close> value.
\<close>

datatype msgval =
    MsgText string
  | MsgInherited string
  | MsgNull
  | MsgUndefined

record world =
  env_secret :: "string option"
  env_store_phone :: "string option"
  env_store_contact :: "string option"
  env_node_env :: "string option"
  hmac_sha256 :: "string \<Rightarrow> string \<Rightarrow> string"
  base64_decode :: "string \<Rightarrow> string"
  json_parse :: "string \<Rightarrow> jsval option"
  json_stringify :: "jsval \<Rightarrow> string"
  string_to_number :: "string \<Rightarrow> int option"
  credit_service :: "string + jsval"
  sms_gateway :: "jsval \<Rightarrow> msgval \<Rightarrow> string + jsval"

record request =
  req_method :: string
  headers :: "string \<Rightarrow> string option"
  body_stream :: "exn + string"

datatype event =
    ReadBody
  | ParseBody
  | CreditCall
  | Dispatch jsval msgval

datatype body =
    ErrorBody string
  | InternalBody string exn bool
  | JsonBody "(string \<times> jsval) list"

record response =
  status :: nat
  body :: body

definition respond :: "nat \<Rightarrow> body \<Rightarrow> response" where
  "respond code b = \<lparr>status = code, body = b\<rparr>"

subsection \<open>Numeric conversion\<close>

text \<open>
  ToNumber; \<open>None\<close> is NaN. An array and an object convert through their text; the text
  \<open>[object Object]\<close> is no number.
\<close>

fun to_number :: "world \<Rightarrow> jsval \<Rightarrow> exn + int option" where
  "to_number w JUndefined = Inr None"
| "to_number w JNull = Inr (Some 0)"
| "to_number w (JBool b) = Inr (Some (if b then 1 else 0))"
| "to_number w (JNum n) = Inr (Some n)"
| "to_number w JNaN = Inr None"
| "to_number w (JStr s) = Inr (string_to_number w s)"
| "to_number w (JArr xs) =
     (case js_to_string (JArr xs) of
        Inl e \<Rightarrow> Inl e
      | Inr s \<Rightarrow> Inr (string_to_number w s))"
| "to_number w (JObj kvs) =
     (case js_to_string (JObj kvs) of Inl e \<Rightarrow> Inl e | Inr s \<Rightarrow> Inr None)"

text \<open>\<open>v <= 0\<close>\<close>

definition js_le_zero :: "world \<Rightarrow> jsval \<Rightarrow> exn + bool" where
  "js_le_zero w v =
     (case to_number w v of
        Inl e \<Rightarrow> Inl e
      | Inr None \<Rightarrow> Inr False
      | Inr (Some n) \<Rightarrow> Inr (n \<le> 0))"

text \<open>\<open>v - 1\<close>\<close>

definition js_minus_one :: "world \<Rightarrow> jsval \<Rightarrow> exn + jsval" where
  "js_minus_one w v =
     (case to_number w v of
        Inl e \<Rightarrow> Inl e
      | Inr None \<Rightarrow> Inr JNaN
      | Inr (Some n) \<Rightarrow> Inr (JNum (n - 1)))"

section \<open>Signature verifier\<close>

text \<open>\<open>crypto.timingSafeEqual\<close> throws a RangeError on buffers of different byte length.\<close>

definition timingSafeEqual :: "string \<Rightarrow> string \<Rightarrow> exn + bool" where
  "timingSafeEqual a b = (if length a \<noteq> length b then Inl RangeError else Inr (a = b))"

text \<open>
  The body of the \<open>try\<close> of \<open>verifyHmac\<close>, \<open>src/api/index.js\<close> lines 98-109. The digest
  is encoded to base64 and decoded again, which gives the digest back.
\<close>

definition verifyHmac_try_api :: "world \<Rightarrow> string \<Rightarrow> string \<Rightarrow> exn + bool" where
  "verifyHmac_try_api w hmacHeader rawBody =
     (case env_secret w of
        None \<Rightarrow> Inl (Error err_secret_api)
      | Some secret \<Rightarrow>
          if secret = [] then Inl (Error err_secret_api)
          else timingSafeEqual (hmac_sha256 w secret rawBody) (base64_decode w hmacHeader))"

definition verifyHmac_api :: "world \<Rightarrow> string \<Rightarrow> string \<Rightarrow> bool" where
  "verifyHmac_api w hmacHeader rawBody =
     (case verifyHmac_try_api w hmacHeader rawBody of Inl e \<Rightarrow> False | Inr r \<Rightarrow> r)"

text \<open>
  \<open>src/api/index.js\<close> lines 265-275 and \<open>src/unnamed/part_000\<close> lines 68-79: the same
  text twice, with no \<open>try\<close>. \<open>crypto.createHmac\<close> throws a TypeError on an undefined key.
\<close>

definition verifyHmac_api2 :: "world \<Rightarrow> string \<Rightarrow> string \<Rightarrow> exn + bool" where
  "verifyHmac_api2 w hmac rawBody =
     (case env_secret w of
        None \<Rightarrow> Inl TypeError
      | Some secret \<Rightarrow> timingSafeEqual (hmac_sha256 w secret rawBody) (base64_decode w hmac))"

definition verifyHmac_p0 :: "world \<Rightarrow> string \<Rightarrow> string \<Rightarrow> exn + bool" where
  "verifyHmac_p0 w hmacHeader rawBody =
     (case env_secret w of
        None \<Rightarrow> Inl TypeError
      | Some secret \<Rightarrow> timingSafeEqual (hmac_sha256 w secret rawBody) (base64_decode w hmacHeader))"

section \<open>Message composer\<close>

text \<open>
  \<open>templates[eventType]\<close> on an object literal: an own property, else a member inherited
  from \<open>Object.prototype\<close> (a function, or the prototype itself for \<open>__proto__\<close>), else
  \<open>undefined\<close>.
\<close>

definition object_prototype_keys :: "string list" where
  "object_prototype_keys =
     [''constructor'', ''__defineGetter__'', ''__defineSetter__'', ''hasOwnProperty'',
      ''__lookupGetter__'', ''__lookupSetter__'', ''isPrototypeOf'', ''propertyIsEnumerable'',
      ''toString'', ''valueOf'', ''__proto__'', ''toLocaleString'']"

definition literal_lookup :: "(string \<times> string) list \<Rightarrow> string \<Rightarrow> msgval" where
  "literal_lookup props k =
     (case map_of props k of
        Some s \<Rightarrow> MsgText s
      | None \<Rightarrow> if k \<in> set object_prototype_keys then MsgInherited k else MsgUndefined)"

fun msg_truthy :: "msgval \<Rightarrow> bool" where
  "msg_truthy (MsgText s) = (s \<noteq> [])"
| "msg_truthy (MsgInherited k) = True"
| "msg_truthy MsgNull = False"
| "msg_truthy MsgUndefined = False"

text \<open>\<open>m || null\<close>\<close>

definition msg_or_null :: "msgval \<Rightarrow> msgval" where
  "msg_or_null m = (if msg_truthy m then m else MsgNull)"

text \<open>\<open>process.env.STORE_PHONE || ""\<close>\<close>

definition store_phone :: "world \<Rightarrow> string" where
  "store_phone w = (case env_store_phone w of None \<Rightarrow> [] | Some s \<Rightarrow> s)"

text \<open>\<open>${process.env.STORE_CONTACT}\<close>\<close>

definition store_contact :: "world \<Rightarrow> string" where
  "store_contact w = (case env_store_contact w of None \<Rightarrow> ''undefined'' | Some s \<Rightarrow> s)"

text \<open>
  \<open>src/api/index.js\<close>, lines 149-161. All five templates are built before the lookup,
  and each hole converts its value to a string.
\<close>

definition createNotificationMessage_api :: "world \<Rightarrow> string \<Rightarrow> jsval \<Rightarrow> exn + msgval" where
  "createNotificationMessage_api w eventType data =
     (case get_prop data ''order'' of
        Inl e \<Rightarrow> Inl e
      | Inr order \<Rightarrow>
          (case js_to_string (opt_chain order ''order_number'') of
             Inl e \<Rightarrow> Inl e
           | Inr order_number \<Rightarrow>
               (case js_to_string (opt_chain order ''financial_status'') of
                  Inl e \<Rightarrow> Inl e
                | Inr financial_status \<Rightarrow>
                    let templates =
                          [(''orders/create'', tpl_create_api_1 @ order_number @ tpl_create_api_2),
                           (''orders/cancelled'',
                              tpl_cancelled_api_1 @ order_number @ tpl_cancelled_api_2
                                @ store_phone w),
                           (''orders/updated'',
                              tpl_updated_api_1 @ order_number @ tpl_updated_api_2
                                @ financial_status),
                           (''orders/paid'', tpl_paid_api_1 @ order_number),
                           (''orders/fulfilled'', tpl_fulfilled_api_1 @ order_number)]
                    in Inr (msg_or_null (literal_lookup templates eventType)))))"

text \<open>\<open>src/api/index.js\<close>, lines 297-311.\<close>

definition createMessage :: "world \<Rightarrow> string \<Rightarrow> jsval \<Rightarrow> exn + msgval" where
  "createMessage w topic data =
     (case get_prop data ''order'' of
        Inl e \<Rightarrow> Inl e
      | Inr order \<Rightarrow>
          (case js_to_string (js_or (opt_chain order ''order_number'') (JStr placeholder_api2)) of
             Inl e \<Rightarrow> Inl e
           | Inr orderNumber \<Rightarrow>
               let templates =
                     [(''orders/create'', tpl_create_api2_1 @ orderNumber @ tpl_create_api2_2),
                      (''orders/cancelled'',
                         tpl_cancelled_api2_1 @ orderNumber @ tpl_cancelled_api2_2 @ store_phone w),
                      (''orders/updated'', tpl_updated_api2_1 @ orderNumber @ tpl_updated_api2_2),
                      (''orders/fulfilled'',
                         tpl_fulfilled_api2_1 @ orderNumber @ tpl_fulfilled_api2_2),
                      (''orders/paid'', tpl_paid_api2_1 @ orderNumber @ tpl_paid_api2_2)]
               in Inr (msg_or_null (literal_lookup templates topic))))"

text \<open>\<open>src/unnamed/part_000\<close>, lines 98-108.\<close>

definition createNotificationMessage_p0 :: "world \<Rightarrow> string \<Rightarrow> jsval \<Rightarrow> exn + msgval" where
  "createNotificationMessage_p0 w eventType data =
     (case get_prop data ''order'' of
        Inl e \<Rightarrow> Inl e
      | Inr order \<Rightarrow>
          (case js_to_string (js_or (opt_chain order ''order_number'') (JStr ''N/A'')) of
             Inl e \<Rightarrow> Inl e
           | Inr orderNumber \<Rightarrow>
               (case js_to_string (opt_chain order ''financial_status'') of
                  Inl e \<Rightarrow> Inl e
                | Inr financial_status \<Rightarrow>
                    let messages =
                          [(''orders/create'', tpl_create_p0_1 @ orderNumber @ tpl_create_p0_2),
                           (''orders/cancelled'',
                              tpl_cancelled_p0_1 @ orderNumber @ tpl_cancelled_p0_2
                                @ store_contact w),
                           (''orders/updated'',
                              tpl_updated_p0_1 @ orderNumber @ tpl_updated_p0_2
                                @ financial_status)]
                    in Inr (literal_lookup messages eventType))))"

section \<open>Quota gateway client\<close>

text \<open>
  \<open>src/api/index.js\<close>, lines 163-182. \<open>typeof\<close> is \<open>"number"\<close> for a number and for NaN.
  Whatever the \<open>try\<close> throws, the \<open>catch\<close> throws a new error with a fixed message.
\<close>

definition is_number :: "jsval \<Rightarrow> bool" where
  "is_number v = (case v of JNum n \<Rightarrow> True | JNaN \<Rightarrow> True | _ \<Rightarrow> False)"

definition checkCredit_try_api :: "world \<Rightarrow> exn + jsval" where
  "checkCredit_try_api w =
     (case credit_service w of
        Inl m \<Rightarrow> Inl (Error m)
      | Inr d \<Rightarrow> if \<not> is_number d then Inl (Error err_credit_invalid_api) else Inr d)"

definition checkCredit_api :: "world \<Rightarrow> exn + jsval" where
  "checkCredit_api w =
     (case checkCredit_try_api w of
        Inl e \<Rightarrow> Inl (Error err_credit_failed_api)
      | Inr d \<Rightarrow> Inr d)"

text \<open>
  \<open>src/unnamed/part_000\<close>, lines 110-122: the only check is for the answer \<open>-5\<close>; the
  \<open>catch\<close> wraps the message of what was thrown.
\<close>

definition checkCredit_p0 :: "world \<Rightarrow> exn + jsval" where
  "checkCredit_p0 w =
     (case credit_service w of
        Inl m \<Rightarrow> Inl (Error (err_credit_prefix_p0 @ m))
      | Inr d \<Rightarrow>
          if d = JNum (- 5) then Inl (Error (err_credit_prefix_p0 @ err_sentinel_p0))
          else Inr d)"

text \<open>\<open>src/index.js\<close>, lines 77-94: the \<open>catch\<close> throws the same error again.\<close>

definition checkCredit_idx :: "world \<Rightarrow> exn + jsval" where
  "checkCredit_idx w =
     (case credit_service w of
        Inl m \<Rightarrow> Inl (Error m)
      | Inr d \<Rightarrow> if d = JNum (- 5) then Inl (Error err_sentinel_idx) else Inr d)"

section \<open>Dispatch client\<close>

text \<open>
  Each \<open>sendSMS\<close> posts one request to the gateway, with a fresh \<open>crypto.randomUUID()\<close>
  as \<open>SMSID\<close>; the request is the event \<open>Dispatch phone message\<close> in the handlers below.

  \<open>src/api/index.js\<close>, lines 184-207: every failure becomes one fixed error.
\<close>

definition sendSMS_api :: "world \<Rightarrow> jsval \<Rightarrow> msgval \<Rightarrow> exn + jsval" where
  "sendSMS_api w phoneNumber message =
     (case sms_gateway w phoneNumber message of
        Inl m \<Rightarrow> Inl (Error err_sms_failed_api)
      | Inr d \<Rightarrow>
          if opt_chain d ''Status'' \<noteq> JStr ''Success'' then Inl (Error err_sms_failed_api)
          else Inr d)"

text \<open>\<open>src/unnamed/part_000\<close>, lines 124-140: nothing is returned on success.\<close>

definition sendSMS_p0 :: "world \<Rightarrow> jsval \<Rightarrow> msgval \<Rightarrow> exn + unit" where
  "sendSMS_p0 w phoneNumber message =
     (case sms_gateway w phoneNumber message of
        Inl m \<Rightarrow> Inl (Error m)
      | Inr d \<Rightarrow>
          if opt_chain d ''Status'' \<noteq> JStr ''Success''
          then Inl (Error (err_sms_prefix_p0 @ json_stringify w d))
          else Inr ())"

text \<open>
  \<open>src/index.js\<close>, lines 96-116. The guard reads the counter when \<open>sendSMS\<close> is called,
  before the request to the gateway; \<open>sendSMS_reply_idx\<close> is what \<open>sendSMS\<close> does when
  the gateway has answered. The second component of \<open>sendSMS_idx\<close> tells whether the
  request was made.
\<close>

definition MAX_QUOTA :: nat where
  "MAX_QUOTA = 10"

definition sendSMS_reply_idx :: "world \<Rightarrow> jsval \<Rightarrow> msgval \<Rightarrow> exn + unit" where
  "sendSMS_reply_idx w phoneNumber message =
     (case sms_gateway w phoneNumber message of
        Inl m \<Rightarrow> Inl (Error m)
      | Inr d \<Rightarrow>
          if opt_chain d ''Status'' \<noteq> JStr ''Success''
          then (case js_to_string d of
                  Inl e \<Rightarrow> Inl e
                | Inr s \<Rightarrow> Inl (Error (err_send_prefix_idx @ s)))
          else Inr ())"

definition sendSMS_idx :: "world \<Rightarrow> nat \<Rightarrow> jsval \<Rightarrow> msgval \<Rightarrow> (exn + unit) \<times> bool" where
  "sendSMS_idx w sentCount phoneNumber message =
     (if sentCount \<ge> MAX_QUOTA then (Inl (Error err_ceiling_idx), False)
      else (sendSMS_reply_idx w phoneNumber message, True))"

section \<open>Request orchestrator\<close>

text \<open>
  A handler maps a request to its response and to the list of the effects it had, in
  order: \<open>ReadBody\<close> for the call of \<open>getRawBody\<close>, \<open>ParseBody\<close> for \<open>JSON.parse\<close>,
  \<open>CreditCall\<close> for the request to the credit service, \<open>Dispatch\<close> for the request to the
  SMS gateway. Whatever is thrown inside the handler's \<open>try\<close> is answered with status
  500. Each handler is written as its stages, last stage first; a stage returns the
  effects from its own start on.

  \<open>!req.headers[h]\<close> holds for a header that is absent and for one that is empty;
  \<open>header\<close> reads the text of a header, and the handlers use it after that check.
\<close>

definition header_missing :: "request \<Rightarrow> string \<Rightarrow> bool" where
  "header_missing req h = (case headers req h of None \<Rightarrow> True | Some v \<Rightarrow> v = [])"

definition header :: "request \<Rightarrow> string \<Rightarrow> string" where
  "header req h = (case headers req h of None \<Rightarrow> [] | Some v \<Rightarrow> v)"

subsection \<open>\<open>src/api/index.js\<close>, lines 4-92\<close>

definition requiredHeaders :: "string list" where
  "requiredHeaders = [''x-shopify-topic'', ''x-shopify-shop-domain'', ''x-shopify-hmac-sha256'']"

definition missingHeaders :: "request \<Rightarrow> string list" where
  "missingHeaders req = filter (header_missing req) requiredHeaders"

text \<open>The \<open>catch\<close> of lines 84-91; the stack is added in development mode.\<close>

definition internal_api :: "world \<Rightarrow> exn \<Rightarrow> response" where
  "internal_api w e =
     respond 500 (InternalBody err_internal_api e (env_node_env w = Some ''development''))"

text \<open>Steps 8 and 9, lines 72-83.\<close>

definition send_stage_api :: "world \<Rightarrow> jsval \<Rightarrow> jsval \<Rightarrow> msgval \<Rightarrow> response \<times> event list" where
  "send_stage_api w phone remainingQuota message =
     (case sendSMS_api w phone message of
        Inl e \<Rightarrow> (internal_api w e, [Dispatch phone message])
      | Inr smsResponse \<Rightarrow>
          (case js_minus_one w remainingQuota of
             Inl e \<Rightarrow> (internal_api w e, [Dispatch phone message])
           | Inr remaining \<Rightarrow>
               (respond 200
                  (JsonBody
                     [(''success'', JBool True),
                      (''message'', JStr ok_message_api),
                      (''remaining_quota'', remaining),
                      (''sms_id'', get_member smsResponse ''SMSID'')]),
                [Dispatch phone message])))"

text \<open>Step 7, lines 58-70.\<close>

definition compose_stage_api ::
  "world \<Rightarrow> string \<Rightarrow> jsval \<Rightarrow> jsval \<Rightarrow> jsval \<Rightarrow> response \<times> event list" where
  "compose_stage_api w eventType webhookData phone remainingQuota =
     (case createNotificationMessage_api w eventType webhookData of
        Inl e \<Rightarrow> (internal_api w e, [])
      | Inr message \<Rightarrow>
          if \<not> msg_truthy message then (respond 400 (ErrorBody err_event_api), [])
          else send_stage_api w phone remainingQuota message)"

text \<open>Step 6, lines 50-56.\<close>

definition quota_stage_api :: "world \<Rightarrow> string \<Rightarrow> jsval \<Rightarrow> jsval \<Rightarrow> response \<times> event list" where
  "quota_stage_api w eventType webhookData phone =
     (case checkCredit_api w of
        Inl e \<Rightarrow> (internal_api w e, [CreditCall])
      | Inr remainingQuota \<Rightarrow>
          (case js_le_zero w remainingQuota of
             Inl e \<Rightarrow> (internal_api w e, [CreditCall])
           | Inr exhausted \<Rightarrow>
               if exhausted then (respond 402 (ErrorBody err_quota_api), [CreditCall])
               else apsnd ((#) CreditCall)
                      (compose_stage_api w eventType webhookData phone remainingQuota)))"

text \<open>Step 5, lines 40-48.\<close>

definition payload_stage_api :: "world \<Rightarrow> string \<Rightarrow> string \<Rightarrow> response \<times> event list" where
  "payload_stage_api w eventType rawBody =
     (case json_parse w rawBody of
        None \<Rightarrow> (internal_api w SyntaxError, [ParseBody])
      | Some webhookData \<Rightarrow>
          (case extractPhoneNumber_api webhookData of
             Inl e \<Rightarrow> (internal_api w e, [ParseBody])
           | Inr phone \<Rightarrow>
               if \<not> truthy phone then (respond 400 (ErrorBody err_phone_api), [ParseBody])
               else apsnd ((#) ParseBody) (quota_stage_api w eventType webhookData phone)))"

text \<open>Steps 1 to 4, lines 6-38.\<close>

definition handler_api :: "world \<Rightarrow> request \<Rightarrow> response \<times> event list" where
  "handler_api w req =
     (if req_method req \<noteq> ''POST'' then (respond 405 (ErrorBody err_method_api), [])
      else if length (missingHeaders req) > 0 then (respond 401 (ErrorBody err_headers_api), [])
      else
        (case body_stream req of
           Inl e \<Rightarrow> (internal_api w e, [ReadBody])
         | Inr rawBody \<Rightarrow>
             if \<not> verifyHmac_api w (header req ''x-shopify-hmac-sha256'') rawBody
             then (respond 401 (ErrorBody err_hmac_api), [ReadBody])
             else apsnd ((#) ReadBody)
                    (payload_stage_api w (header req ''x-shopify-topic'') rawBody)))"

subsection \<open>\<open>src/unnamed/part_000\<close>, lines 5-64\<close>

definition internal_p0 :: "exn \<Rightarrow> response" where
  "internal_p0 e = respond 500 (InternalBody ''Internal Server Error'' e False)"

text \<open>Lines 49-56.\<close>

definition send_stage_p0 :: "world \<Rightarrow> jsval \<Rightarrow> jsval \<Rightarrow> msgval \<Rightarrow> response \<times> event list" where
  "send_stage_p0 w phone remainingQuota message =
     (case sendSMS_p0 w phone message of
        Inl e \<Rightarrow> (internal_p0 e, [Dispatch phone message])
      | Inr u \<Rightarrow>
          (case js_minus_one w remainingQuota of
             Inl e \<Rightarrow> (internal_p0 e, [Dispatch phone message])
           | Inr remaining \<Rightarrow>
               (respond 200
                  (JsonBody
                     [(''success'', JBool True),
                      (''message'', JStr ''SMS sent successfully''),
                      (''remaining_quota'', remaining)]),
                [Dispatch phone message])))"

text \<open>Lines 43-47.\<close>

definition compose_stage_p0 ::
  "world \<Rightarrow> string \<Rightarrow> jsval \<Rightarrow> jsval \<Rightarrow> jsval \<Rightarrow> response \<times> event list" where
  "compose_stage_p0 w eventType webhookData phone remainingQuota =
     (case createNotificationMessage_p0 w eventType webhookData of
        Inl e \<Rightarrow> (internal_p0 e, [])
      | Inr message \<Rightarrow>
          if \<not> msg_truthy message then (respond 400 (ErrorBody ''Unsupported event type''), [])
          else send_stage_p0 w phone remainingQuota message)"

text \<open>Lines 37-41.\<close>

definition quota_stage_p0 :: "world \<Rightarrow> string \<Rightarrow> jsval \<Rightarrow> jsval \<Rightarrow> response \<times> event list" where
  "quota_stage_p0 w eventType webhookData phone =
     (case checkCredit_p0 w of
        Inl e \<Rightarrow> (internal_p0 e, [CreditCall])
      | Inr remainingQuota \<Rightarrow>
          (case js_le_zero w remainingQuota of
             Inl e \<Rightarrow> (internal_p0 e, [CreditCall])
           | Inr exhausted \<Rightarrow>
               if exhausted then (respond 402 (ErrorBody ''SMS quota exceeded''), [CreditCall])
               else apsnd ((#) CreditCall)
                      (compose_stage_p0 w eventType webhookData phone remainingQuota)))"

text \<open>Lines 29-35.\<close>

definition payload_stage_p0 :: "world \<Rightarrow> string \<Rightarrow> string \<Rightarrow> response \<times> event list" where
  "payload_stage_p0 w eventType rawBody =
     (case json_parse w rawBody of
        None \<Rightarrow> (internal_p0 SyntaxError, [ParseBody])
      | Some webhookData \<Rightarrow>
          let phone = extractPhoneNumber_p0 webhookData
          in if \<not> truthy phone then (respond 400 (ErrorBody ''Phone number not found''), [ParseBody])
             else apsnd ((#) ParseBody) (quota_stage_p0 w eventType webhookData phone))"

text \<open>Lines 7-27.\<close>

definition handler_p0 :: "world \<Rightarrow> request \<Rightarrow> response \<times> event list" where
  "handler_p0 w req =
     (if req_method req \<noteq> ''POST'' then (respond 405 (ErrorBody ''Method Not Allowed''), [])
      else
        let eventType = header req ''x-shopify-topic'';
            hmacHeader = header req ''x-shopify-hmac-sha256''
        in
          if header_missing req ''x-shopify-topic''
             \<or> header_missing req ''x-shopify-shop-domain''
             \<or> header_missing req ''x-shopify-hmac-sha256''
          then (respond 401 (ErrorBody ''Missing required headers''), [])
          else
            (case body_stream req of
               Inl e \<Rightarrow> (internal_p0 e, [ReadBody])
             | Inr rawBody \<Rightarrow>
                 (case verifyHmac_p0 w hmacHeader rawBody of
                    Inl e \<Rightarrow> (internal_p0 e, [ReadBody])
                  | Inr valid \<Rightarrow>
                      if \<not> valid
                      then (respond 401 (ErrorBody ''Invalid HMAC signature''), [ReadBody])
                      else apsnd ((#) ReadBody) (payload_stage_p0 w eventType rawBody))))"

subsection \<open>\<open>src/index.js\<close>, lines 9-73: the session counter\<close>

text \<open>
  \<open>src/index.js\<close> calls \<open>getRawBody\<close>, \<open>verifyHmac\<close>, \<open>extractPhoneNumber\<close> and
  \<open>createNotificationMessage\<close> and defines none of them. They are parameters of the
  model: each is absent or a function that returns or throws. The call of an absent
  function throws a ReferenceError and has no effect; \<open>undefined_helpers\<close> is the file
  as it stands.
\<close>

record helpers =
  getRawBody_def :: "(request \<Rightarrow> exn + string) option"
  verifyHmac_def :: "(string \<Rightarrow> string \<Rightarrow> exn + bool) option"
  extractPhoneNumber_def :: "(jsval \<Rightarrow> exn + jsval) option"
  createNotificationMessage_def :: "(string \<Rightarrow> jsval \<Rightarrow> exn + msgval) option"

definition undefined_helpers :: helpers where
  "undefined_helpers =
     \<lparr>getRawBody_def = None,
      verifyHmac_def = None,
      extractPhoneNumber_def = None,
      createNotificationMessage_def = None\<rparr>"

definition getRawBody :: "helpers \<Rightarrow> request \<Rightarrow> exn + string" where
  "getRawBody hs req =
     (case getRawBody_def hs of None \<Rightarrow> Inl ReferenceError | Some f \<Rightarrow> f req)"

definition verifyHmac :: "helpers \<Rightarrow> string \<Rightarrow> string \<Rightarrow> exn + bool" where
  "verifyHmac hs hmacHeader rawBody =
     (case verifyHmac_def hs of None \<Rightarrow> Inl ReferenceError | Some f \<Rightarrow> f hmacHeader rawBody)"

definition extractPhoneNumber :: "helpers \<Rightarrow> jsval \<Rightarrow> exn + jsval" where
  "extractPhoneNumber hs data =
     (case extractPhoneNumber_def hs of None \<Rightarrow> Inl ReferenceError | Some f \<Rightarrow> f data)"

definition createNotificationMessage :: "helpers \<Rightarrow> string \<Rightarrow> jsval \<Rightarrow> exn + msgval" where
  "createNotificationMessage hs eventType data =
     (case createNotificationMessage_def hs of
        None \<Rightarrow> Inl ReferenceError
      | Some f \<Rightarrow> f eventType data)"

text \<open>The body is asked for when \<open>getRawBody\<close> is there to be called.\<close>

definition read_effect :: "helpers \<Rightarrow> event list" where
  "read_effect hs = (case getRawBody_def hs of None \<Rightarrow> [] | Some f \<Rightarrow> [ReadBody])"

definition internal_idx :: "exn \<Rightarrow> response" where
  "internal_idx e = respond 500 (InternalBody ''Internal Server Error'' e False)"

text \<open>The response of lines 58-65, from the counter after its increment.\<close>

definition success_idx :: "nat \<Rightarrow> response" where
  "success_idx sent =
     respond 200
       (JsonBody
          [(''success'', JBool True),
           (''message'', JStr ''SMS sent successfully''),
           (''quota'',
              JObj [(''sent'', JNum (int sent)),
                    (''remaining'', JNum (int MAX_QUOTA - int sent))])])"

subsubsection \<open>The handler, from one await to the next\<close>

text \<open>
  The handler is an \<open>async\<close> function: it runs until it awaits, and goes on when what
  it awaited arrives; other requests may be served in between. It awaits the body
  (line 26), the answer of the credit service (line 79, inside \<open>checkCredit\<close>) and the
  answer of the gateway (line 111, inside \<open>sendSMS\<close>). A task is a request at one of
  these points, or not yet started, or answered. The module variable \<open>sentCount\<close> is
  read by the guard of \<open>sendSMS\<close> (line 97) in the step that follows the answer of the
  credit service, and read and written by \<open>sentCount++\<close> (line 55) in the step that
  follows the answer of the gateway.
\<close>

datatype task =
    Arrived
  | AwaitBody
  | AwaitCredit jsval jsval
  | AwaitGateway jsval msgval
  | Finished response

text \<open>Lines 11-26: from the start to the first await.\<close>

definition start_idx :: "helpers \<Rightarrow> request \<Rightarrow> task \<times> event list" where
  "start_idx hs req =
     (if req_method req \<noteq> ''POST'' then (Finished (respond 405 (ErrorBody ''Method Not Allowed'')), [])
      else if header_missing req ''x-shopify-topic''
              \<or> header_missing req ''x-shopify-shop-domain''
              \<or> header_missing req ''x-shopify-hmac-sha256''
      then (Finished (respond 401 (ErrorBody ''Missing required headers'')), [])
      else
        (case getRawBody_def hs of
           None \<Rightarrow> (Finished (internal_idx ReferenceError), [])
         | Some f \<Rightarrow> (AwaitBody, [ReadBody])))"

text \<open>Lines 26-42 and 79: from the body to the request to the credit service.\<close>

definition after_body_idx :: "helpers \<Rightarrow> world \<Rightarrow> request \<Rightarrow> task \<times> event list" where
  "after_body_idx hs w req =
     (case getRawBody hs req of
        Inl e \<Rightarrow> (Finished (internal_idx e), [])
      | Inr rawBody \<Rightarrow>
          (case verifyHmac hs (header req ''x-shopify-hmac-sha256'') rawBody of
             Inl e \<Rightarrow> (Finished (internal_idx e), [])
           | Inr valid \<Rightarrow>
               if \<not> valid then (Finished (respond 401 (ErrorBody ''Invalid HMAC signature'')), [])
               else
                 (case json_parse w rawBody of
                    None \<Rightarrow> (Finished (internal_idx SyntaxError), [ParseBody])
                  | Some webhookData \<Rightarrow>
                      (case extractPhoneNumber hs webhookData of
                         Inl e \<Rightarrow> (Finished (internal_idx e), [ParseBody])
                       | Inr phone \<Rightarrow>
                           if \<not> truthy phone
                           then (Finished (respond 400 (ErrorBody ''Phone number not found'')),
                                 [ParseBody])
                           else (AwaitCredit webhookData phone, [ParseBody, CreditCall])))))"

text \<open>
  Lines 85-89, 43-54 and 97-111: from the answer of the credit service to the request
  to the gateway. The guard reads the counter as it is now.
\<close>

definition after_credit_idx ::
  "helpers \<Rightarrow> world \<Rightarrow> request \<Rightarrow> nat \<Rightarrow> jsval \<Rightarrow> jsval \<Rightarrow> task \<times> event list" where
  "after_credit_idx hs w req sentCount webhookData phone =
     (case checkCredit_idx w of
        Inl e \<Rightarrow> (Finished (internal_idx e), [])
      | Inr remainingQuota \<Rightarrow>
          (case js_le_zero w remainingQuota of
             Inl e \<Rightarrow> (Finished (internal_idx e), [])
           | Inr exhausted \<Rightarrow>
               if exhausted then (Finished (respond 402 (ErrorBody ''SMS quota exceeded'')), [])
               else
                 (case createNotificationMessage hs (header req ''x-shopify-topic'') webhookData of
                    Inl e \<Rightarrow> (Finished (internal_idx e), [])
                  | Inr message \<Rightarrow>
                      if \<not> msg_truthy message
                      then (Finished (respond 400 (ErrorBody ''Unsupported event type'')), [])
                      else if sentCount \<ge> MAX_QUOTA
                      then (Finished (internal_idx (Error err_ceiling_idx)), [])
                      else (AwaitGateway phone message, [Dispatch phone message]))))"

text \<open>
  Lines 113-115 and 55-65: from the answer of the gateway to the response. The
  increment reads and writes the counter as it is now.
\<close>

definition after_gateway_idx :: "world \<Rightarrow> nat \<Rightarrow> jsval \<Rightarrow> msgval \<Rightarrow> task \<times> nat" where
  "after_gateway_idx w sentCount phone message =
     (case sendSMS_reply_idx w phone message of
        Inl e \<Rightarrow> (Finished (internal_idx e), sentCount)
      | Inr u \<Rightarrow> (Finished (success_idx (sentCount + 1)), sentCount + 1))"

text \<open>
  One step of a request: the task, the effects of the request so far and the counter,
  before and after.
\<close>

fun resume ::
  "helpers \<Rightarrow> world \<Rightarrow> request \<Rightarrow> task \<times> event list \<times> nat \<Rightarrow> task \<times> event list \<times> nat" where
  "resume hs w req (Arrived, evs, sentCount) =
     (case start_idx hs req of (t, new) \<Rightarrow> (t, evs @ new, sentCount))"
| "resume hs w req (AwaitBody, evs, sentCount) =
     (case after_body_idx hs w req of (t, new) \<Rightarrow> (t, evs @ new, sentCount))"
| "resume hs w req (AwaitCredit webhookData phone, evs, sentCount) =
     (case after_credit_idx hs w req sentCount webhookData phone of
        (t, new) \<Rightarrow> (t, evs @ new, sentCount))"
| "resume hs w req (AwaitGateway phone message, evs, sentCount) =
     (case after_gateway_idx w sentCount phone message of
        (t, sentCount') \<Rightarrow> (t, evs, sentCount'))"
| "resume hs w req (Finished r, evs, sentCount) = (Finished r, evs, sentCount)"






subsubsection \<open>The handler, served alone\<close>

text \<open>
  The handler when no other request is served between its awaits: \<open>sentCount\<close> is then
  the same at the guard and at the increment, is passed in and is returned. It is
  written as its stages, like the two handlers above.

  Lines 53-65.
\<close>

definition send_stage_idx ::
  "world \<Rightarrow> nat \<Rightarrow> jsval \<Rightarrow> msgval \<Rightarrow> response \<times> event list \<times> nat" where
  "send_stage_idx w sentCount phone message =
     (case sendSMS_idx w sentCount phone message of
        (Inl e, called) \<Rightarrow>
          (internal_idx e, (if called then [Dispatch phone message] else []), sentCount)
      | (Inr u, called) \<Rightarrow>
          (respond 200
             (JsonBody
                [(''success'', JBool True),
                 (''message'', JStr ''SMS sent successfully''),
                 (''quota'',
                    JObj [(''sent'', JNum (int (sentCount + 1))),
                          (''remaining'', JNum (int MAX_QUOTA - int (sentCount + 1)))])]),
           (if called then [Dispatch phone message] else []),
           sentCount + 1))"

text \<open>Lines 47-51.\<close>

definition compose_stage_idx ::
  "helpers \<Rightarrow> world \<Rightarrow> nat \<Rightarrow> string \<Rightarrow> jsval \<Rightarrow> jsval \<Rightarrow> response \<times> event list \<times> nat" where
  "compose_stage_idx hs w sentCount eventType webhookData phone =
     (case createNotificationMessage hs eventType webhookData of
        Inl e \<Rightarrow> (internal_idx e, [], sentCount)
      | Inr message \<Rightarrow>
          if \<not> msg_truthy message
          then (respond 400 (ErrorBody ''Unsupported event type''), [], sentCount)
          else send_stage_idx w sentCount phone message)"

text \<open>Lines 41-45.\<close>

definition quota_stage_idx ::
  "helpers \<Rightarrow> world \<Rightarrow> nat \<Rightarrow> string \<Rightarrow> jsval \<Rightarrow> jsval \<Rightarrow> response \<times> event list \<times> nat" where
  "quota_stage_idx hs w sentCount eventType webhookData phone =
     (case checkCredit_idx w of
        Inl e \<Rightarrow> (internal_idx e, [CreditCall], sentCount)
      | Inr remainingQuota \<Rightarrow>
          (case js_le_zero w remainingQuota of
             Inl e \<Rightarrow> (internal_idx e, [CreditCall], sentCount)
           | Inr exhausted \<Rightarrow>
               if exhausted
               then (respond 402 (ErrorBody ''SMS quota exceeded''), [CreditCall], sentCount)
               else apsnd (apfst ((#) CreditCall))
                      (compose_stage_idx hs w sentCount eventType webhookData phone)))"

text \<open>Lines 33-39.\<close>

definition payload_stage_idx ::
  "helpers \<Rightarrow> world \<Rightarrow> nat \<Rightarrow> string \<Rightarrow> string \<Rightarrow> response \<times> event list \<times> nat" where
  "payload_stage_idx hs w sentCount eventType rawBody =
     (case json_parse w rawBody of
        None \<Rightarrow> (internal_idx SyntaxError, [ParseBody], sentCount)
      | Some webhookData \<Rightarrow>
          (case extractPhoneNumber hs webhookData of
             Inl e \<Rightarrow> (internal_idx e, [ParseBody], sentCount)
           | Inr phone \<Rightarrow>
               if \<not> truthy phone
               then (respond 400 (ErrorBody ''Phone number not found''), [ParseBody], sentCount)
               else apsnd (apfst ((#) ParseBody))
                      (quota_stage_idx hs w sentCount eventType webhookData phone)))"

text \<open>Lines 11-31.\<close>

definition handler_idx :: "helpers \<Rightarrow> world \<Rightarrow> nat \<Rightarrow> request \<Rightarrow> response \<times> event list \<times> nat" where
  "handler_idx hs w sentCount req =
     (if req_method req \<noteq> ''POST'' then (respond 405 (ErrorBody ''Method Not Allowed''), [], sentCount)
      else
        let eventType = header req ''x-shopify-topic'';
            hmacHeader = header req ''x-shopify-hmac-sha256''
        in
          if header_missing req ''x-shopify-topic''
             \<or> header_missing req ''x-shopify-shop-domain''
             \<or> header_missing req ''x-shopify-hmac-sha256''
          then (respond 401 (ErrorBody ''Missing required headers''), [], sentCount)
          else
            (case getRawBody hs req of
               Inl e \<Rightarrow> (internal_idx e, read_effect hs, sentCount)
             | Inr rawBody \<Rightarrow>
                 (case verifyHmac hs hmacHeader rawBody of
                    Inl e \<Rightarrow> (internal_idx e, read_effect hs, sentCount)
                  | Inr valid \<Rightarrow>
                      if \<not> valid
                      then (respond 401 (ErrorBody ''Invalid HMAC signature''), read_effect hs,
                            sentCount)
                      else apsnd (apfst ((@) (read_effect hs)))
                             (payload_stage_idx hs w sentCount eventType rawBody))))"


section \<open>A concrete request and its surroundings\<close>

text \<open>
  Instances of the parameters, on which the definitions above are evaluated.
  \<open>demo_base64\<close> decodes base64 as \<open>Buffer.from(s, "base64")\<close> does on text made of the
  64 letters of the alphabet and padding. \<open>demo_number\<close> agrees with the numeric
  conversion of a string on the empty string, on an optionally signed run of decimal
  digits, and on a string with a letter that no numeric literal has, such as
  \<open>unlimited\<close>, which is no number; it is used on such strings only. \<open>demo_hmac\<close>,
  \<open>demo_parse\<close> and \<open>demo_stringify\<close> stand for the functions of the runtime: the
  first returns 32 bytes, as HMAC-SHA256 does, the second knows the body of the
  scenario, the third is not called in what follows.
\<close>

definition b64_alphabet :: string where
  "b64_alphabet = ''ABCDEFGHIJKLMNOPQRSTUVWXYZabcdefghijklmnopqrstuvwxyz0123456789+/''"

fun index_from :: "int \<Rightarrow> char \<Rightarrow> string \<Rightarrow> int" where
  "index_from i c [] = i"
| "index_from i c (x # xs) = (if c = x then i else index_from (i + 1) c xs)"

definition index_of :: "char \<Rightarrow> string \<Rightarrow> int" where
  "index_of c xs = index_from 0 c xs"

fun b64_bytes :: "int list \<Rightarrow> string" where
  "b64_bytes (a # b # c # d # rest) =
     (let n = ((a * 64 + b) * 64 + c) * 64 + d
      in char_of (n div 65536) # char_of (n div 256 mod 256) # char_of (n mod 256) # b64_bytes rest)"
| "b64_bytes [a, b, c] =
     (let n = ((a * 64 + b) * 64 + c) * 64
      in [char_of (n div 65536), char_of (n div 256 mod 256)])"
| "b64_bytes [a, b] = [char_of ((a * 64 + b) * 4096 div 65536)]"
| "b64_bytes [a] = []"
| "b64_bytes [] = []"

definition demo_base64 :: "string \<Rightarrow> string" where
  "demo_base64 s =
     b64_bytes
       (map (\<lambda>c. index_of c b64_alphabet)
          (filter (\<lambda>c. c \<in> set b64_alphabet) (takeWhile (\<lambda>c. c \<noteq> CHR ''='') s)))"

definition demo_hmac :: "string \<Rightarrow> string \<Rightarrow> string" where
  "demo_hmac key msg = take 32 (key @ msg @ replicate 32 (CHR ''.''))"

definition digits_value :: "string \<Rightarrow> int" where
  "digits_value ds = foldl (\<lambda>a c. 10 * a + index_of c ''0123456789'') 0 ds"

definition demo_number :: "string \<Rightarrow> int option" where
  "demo_number s =
     (case s of
        [] \<Rightarrow> Some 0
      | c # r \<Rightarrow>
          if (c = CHR ''-'' \<or> c = CHR ''+'') \<and> r \<noteq> [] \<and> list_all is_digit r
          then Some (if c = CHR ''-'' then - digits_value r else digits_value r)
          else if list_all is_digit s then Some (digits_value s)
          else None)"

definition scenario_payload :: jsval where
  "scenario_payload =
     JObj [(''order'', JObj [(''order_number'', JStr ''1001'')]),
           (''customer'', JObj [(''phone'', JStr ''+966500000000'')])]"

definition scenario_body :: string where
  \<open>scenario_body = ''{"order":{"order_number":"1001"},"customer":{"phone":"+966500000000"}}''\<close>

definition demo_parse :: "string \<Rightarrow> jsval option" where
  "demo_parse s = (if s = scenario_body then Some scenario_payload else None)"

definition demo_stringify :: "jsval \<Rightarrow> string" where
  "demo_stringify v = ''null''"

definition gateway_success :: jsval where
  "gateway_success = JObj [(''Status'', JStr ''Success''), (''SMSID'', JStr ''sms-0001'')]"

text \<open>
  Scenario A of the specification: the credit service answers \<open>5\<close> and the gateway
  accepts the message.
\<close>

definition scenario_world :: world where
  "scenario_world =
     \<lparr>env_secret = Some ''shpss_demo_secret'',
      env_store_phone = None,
      env_store_contact = None,
      env_node_env = None,
      hmac_sha256 = demo_hmac,
      base64_decode = demo_base64,
      json_parse = demo_parse,
      json_stringify = demo_stringify,
      string_to_number = demo_number,
      credit_service = Inr (JNum 5),
      sms_gateway = (\<lambda>phone message. Inr gateway_success)\<rparr>"

definition scenario_headers :: "string \<Rightarrow> string option" where
  "scenario_headers =
     map_of
       [(''x-shopify-topic'', ''orders/create''),
        (''x-shopify-shop-domain'', ''demo.myshopify.com''),
        (''x-shopify-hmac-sha256'', ''c2hwc3NfZGVtb19zZWNyZXR7Im9yZGVyIjp7Im9yZGU='')]"

definition scenario_request :: request where
  "scenario_request =
     \<lparr>req_method = ''POST'', headers = scenario_headers, body_stream = Inr scenario_body\<rparr>"

text \<open>The helpers of \<open>src/unnamed/part_000\<close>, put in the place of those that \<open>src/index.js\<close> lacks.\<close>

definition p0_helpers :: "world \<Rightarrow> helpers" where
  "p0_helpers w =
     \<lparr>getRawBody_def = Some body_stream,
      verifyHmac_def = Some (verifyHmac_p0 w),
      extractPhoneNumber_def = Some (\<lambda>data. Inr (extractPhoneNumber_p0 data)),
      createNotificationMessage_def = Some (createNotificationMessage_p0 w)\<rparr>"

text \<open>The same surroundings with other answers of the credit service.\<close>

definition sentinel_world :: world where
  "sentinel_world = scenario_world\<lparr>credit_service := Inr (JNum (- 5))\<rparr>"

definition exhausted_world :: world where
  "exhausted_world = scenario_world\<lparr>credit_service := Inr (JNum 0)\<rparr>"

definition text_answer_world :: world where
  "text_answer_world = scenario_world\<lparr>credit_service := Inr (JStr ''unlimited'')\<rparr>"

text \<open>The request of the scenario with a signature header of four letters, which decode to three bytes.\<close>

definition short_signature_request :: request where
  "short_signature_request =
     scenario_request\<lparr>headers := scenario_headers(''x-shopify-hmac-sha256'' \<mapsto> ''AAAA'')\<rparr>"





text \<open>The topics for which the composers have a template.\<close>

definition recognized_topics :: "string list" where
  "recognized_topics =
     [''orders/create'', ''orders/cancelled'', ''orders/updated'', ''orders/paid'',
      ''orders/fulfilled'']"

definition recognized_topics_p0 :: "string list" where
  "recognized_topics_p0 = [''orders/create'', ''orders/cancelled'', ''orders/updated'']"

text \<open>A payload without an order.\<close>

definition no_order_payload :: jsval where
  "no_order_payload = JObj [(''customer'', JObj [(''phone'', JStr ''+966500000000'')])]"

section \<open>Requests that reach the quota check\<close>

text \<open>
  A request passes the gates of a handler when it is a POST with the three headers,
  its body arrives, the signature is accepted, the body parses to \<open>data\<close> and a phone
  number is found in \<open>data\<close>.
\<close>

definition passes_gates_api :: "world \<Rightarrow> request \<Rightarrow> jsval \<Rightarrow> bool" where
  "passes_gates_api w req data =
     (req_method req = ''POST'' \<and> missingHeaders req = [] \<and>
      (case body_stream req of
         Inl e \<Rightarrow> False
       | Inr rawBody \<Rightarrow>
           verifyHmac_api w (header req ''x-shopify-hmac-sha256'') rawBody \<and>
           json_parse w rawBody = Some data \<and>
           (case extractPhoneNumber_api data of Inl e \<Rightarrow> False | Inr phone \<Rightarrow> truthy phone)))"

definition passes_gates_p0 :: "world \<Rightarrow> request \<Rightarrow> jsval \<Rightarrow> bool" where
  "passes_gates_p0 w req data =
     (req_method req = ''POST'' \<and>
      \<not> header_missing req ''x-shopify-topic'' \<and>
      \<not> header_missing req ''x-shopify-shop-domain'' \<and>
      \<not> header_missing req ''x-shopify-hmac-sha256'' \<and>
      (case body_stream req of
         Inl e \<Rightarrow> False
       | Inr rawBody \<Rightarrow>
           verifyHmac_p0 w (header req ''x-shopify-hmac-sha256'') rawBody = Inr True \<and>
           json_parse w rawBody = Some data \<and>
           truthy (extractPhoneNumber_p0 data)))"

definition passes_gates_idx :: "helpers \<Rightarrow> world \<Rightarrow> request \<Rightarrow> jsval \<Rightarrow> jsval \<Rightarrow> bool" where
  "passes_gates_idx hs w req data phone =
     (req_method req = ''POST'' \<and>
      \<not> header_missing req ''x-shopify-topic'' \<and>
      \<not> header_missing req ''x-shopify-shop-domain'' \<and>
      \<not> header_missing req ''x-shopify-hmac-sha256'' \<and>
      (case getRawBody hs req of
         Inl e \<Rightarrow> False
       | Inr rawBody \<Rightarrow>
           verifyHmac hs (header req ''x-shopify-hmac-sha256'') rawBody = Inr True \<and>
           json_parse w rawBody = Some data \<and>
           extractPhoneNumber hs data = Inr phone \<and>
           truthy phone))"

section \<open>Reading a response and a list of effects\<close>

text \<open>
  \<open>json_field r k\<close> is the field \<open>k\<close> of the object sent as a response; \<open>is_dispatch\<close>
  tells the requests to the gateway among the effects; a dispatch is accepted when the
  gateway answers it with the status \<open>Success\<close>.

  \<open>counter_step w sentCount out\<close> relates the counter before a request to the outcome
  of the handler of \<open>src/index.js\<close>: on a response with status 200 the counter went up
  by one from a value below \<open>MAX_QUOTA\<close>, and the effects hold one dispatch, the last
  effect, which the gateway accepted; on any other response the counter is unchanged.
\<close>

definition json_field :: "response \<Rightarrow> string \<Rightarrow> jsval option" where
  "json_field r k = (case body r of JsonBody props \<Rightarrow> map_of props k | _ \<Rightarrow> None)"

definition is_dispatch :: "event \<Rightarrow> bool" where
  "is_dispatch e = (case e of Dispatch phone message \<Rightarrow> True | _ \<Rightarrow> False)"






section \<open>Payloads with a value that has no text, and overlapping requests\<close>

text \<open>
  A payload with the object \<open>{toString: "x"}\<close> at \<open>customer.phone\<close> and a valid phone at
  \<open>shipping_address.phone\<close>.
\<close>

definition text_key_payload :: jsval where
  "text_key_payload =
     JObj [(''customer'', JObj [(''phone'', JObj [(''toString'', JStr ''x'')])]),
           (''shipping_address'', JObj [(''phone'', JStr ''+966500000000'')])]"

text \<open>A payload whose order number is the object \<open>{toString: 1}\<close>.\<close>

definition text_key_order_payload :: jsval where
  "text_key_order_payload =
     JObj [(''order'', JObj [(''order_number'', JObj [(''toString'', JNum 1)])]),
           (''customer'', JObj [(''phone'', JStr ''+966500000000'')])]"

text \<open>The request of the scenario with the topic \<open>orders/updated\<close>.\<close>

definition updated_request :: request where
  "updated_request =
     scenario_request\<lparr>headers := scenario_headers(''x-shopify-topic'' \<mapsto> ''orders/updated'')\<rparr>"




section \<open>From the gates to the quota check\<close>

lemma js_le_zero_number [simp]: "js_le_zero w (JNum n) = Inr (n \<le> 0)"
  by (simp add: js_le_zero_def)

lemma js_minus_one_number [simp]: "js_minus_one w (JNum n) = Inr (JNum (n - 1))"
  by (simp add: js_minus_one_def)

lemma passes_gates_api_phone:
  "passes_gates_api w req data \<Longrightarrow>
   \<exists>phone. extractPhoneNumber_api data = Inr phone \<and> truthy phone"
  by (cases "body_stream req"; cases "extractPhoneNumber_api data")
     (auto simp: passes_gates_api_def)

lemma handler_api_gates:
  "passes_gates_api w req data \<Longrightarrow> extractPhoneNumber_api data = Inr phone \<Longrightarrow>
   handler_api w req =
     apsnd ((@) [ReadBody, ParseBody])
       (quota_stage_api w (header req ''x-shopify-topic'') data phone)"
  by (cases "body_stream req")
     (auto simp: passes_gates_api_def handler_api_def payload_stage_api_def Let_def apsnd_def
           map_prod_def split: prod.splits)

lemma handler_p0_gates:
  "passes_gates_p0 w req data \<Longrightarrow>
   handler_p0 w req =
     apsnd ((@) [ReadBody, ParseBody])
       (quota_stage_p0 w (header req ''x-shopify-topic'') data (extractPhoneNumber_p0 data))"
  by (cases "body_stream req")
     (auto simp: passes_gates_p0_def handler_p0_def payload_stage_p0_def Let_def apsnd_def
           map_prod_def split: prod.splits)

lemma handler_idx_gates:
  "passes_gates_idx hs w req data phone \<Longrightarrow>
   handler_idx hs w sentCount req =
     apsnd (apfst ((@) [ReadBody, ParseBody]))
       (quota_stage_idx hs w sentCount (header req ''x-shopify-topic'') data phone)"
  by (cases "getRawBody hs req"; cases "getRawBody_def hs")
     (auto simp: passes_gates_idx_def handler_idx_def payload_stage_idx_def Let_def apsnd_def
           apfst_def map_prod_def getRawBody_def read_effect_def split: prod.splits)

lemma scenario_passes_p0: "passes_gates_p0 scenario_world scenario_request scenario_payload"
  by code_simp

lemma scenario_passes_api: "passes_gates_api scenario_world scenario_request scenario_payload"
  by code_simp

lemma scenario_passes_idx:
  "passes_gates_idx (p0_helpers scenario_world) scenario_world scenario_request scenario_payload
     (JStr ''+966500000000'')"
  by code_simp

section \<open>The quota check\<close>

lemma quota_stage_p0_sentinel:
  "credit_service w = Inr (JNum (- 5)) \<Longrightarrow>
   quota_stage_p0 w eventType data phone =
     (respond 500 (InternalBody ''Internal Server Error''
        (Error (err_credit_prefix_p0 @ err_sentinel_p0)) False), [CreditCall])"
  by (simp add: quota_stage_p0_def checkCredit_p0_def internal_p0_def)

lemma quota_stage_idx_sentinel:
  "credit_service w = Inr (JNum (- 5)) \<Longrightarrow>
   quota_stage_idx hs w sentCount eventType data phone =
     (respond 500 (InternalBody ''Internal Server Error'' (Error err_sentinel_idx) False),
      [CreditCall], sentCount)"
  by (simp add: quota_stage_idx_def checkCredit_idx_def internal_idx_def)

lemma quota_stage_api_nonpositive:
  "credit_service w = Inr (JNum n) \<Longrightarrow> n \<le> 0 \<Longrightarrow>
   quota_stage_api w eventType data phone = (respond 402 (ErrorBody err_quota_api), [CreditCall])"
  by (simp add: quota_stage_api_def checkCredit_api_def checkCredit_try_api_def is_number_def)

lemma quota_stage_p0_nonpositive:
  "credit_service w = Inr (JNum n) \<Longrightarrow> n \<le> 0 \<Longrightarrow> n \<noteq> - 5 \<Longrightarrow>
   quota_stage_p0 w eventType data phone =
     (respond 402 (ErrorBody ''SMS quota exceeded''), [CreditCall])"
  by (simp add: quota_stage_p0_def checkCredit_p0_def)

text \<open>
  Claim C1, as it stands: a request that passed the signature check and the phone
  extraction is answered with status 402 when the credit service answers \<open>-5\<close>. In
  \<open>src/unnamed/part_000\<close> the request of the scenario is answered with status 500.
\<close>

theorem sentinel_answer_counterexample:
  "passes_gates_p0 sentinel_world scenario_request scenario_payload
   \<and> credit_service sentinel_world = Inr (JNum (- 5))
   \<and> status (fst (handler_p0 sentinel_world scenario_request)) = 500"
  by code_simp

text \<open>
  Claim C1, amended: when the credit service answers \<open>-5\<close> to a request that passed the
  gates, \<open>checkCredit\<close> of \<open>src/unnamed/part_000\<close> and of \<open>src/index.js\<close> throws an
  ordinary \<open>Error\<close>, and the handler answers with status 500 after the credit call,
  without a dispatch (and without a change of \<open>sentCount\<close>); \<open>checkCredit\<close> of
  \<open>src/api/index.js\<close> returns \<open>-5\<close> as a number, and the handler answers with status
  402 through its check \<open>remainingQuota <= 0\<close>, without a dispatch.
\<close>

theorem sentinel_answer:
  assumes "credit_service w = Inr (JNum (- 5))"
  shows "(passes_gates_p0 w req data \<longrightarrow>
            handler_p0 w req =
              (respond 500 (InternalBody ''Internal Server Error''
                 (Error (err_credit_prefix_p0 @ err_sentinel_p0)) False),
               [ReadBody, ParseBody, CreditCall]))
       \<and> (passes_gates_idx hs w req data phone \<longrightarrow>
            handler_idx hs w sentCount req =
              (respond 500 (InternalBody ''Internal Server Error'' (Error err_sentinel_idx) False),
               [ReadBody, ParseBody, CreditCall], sentCount))
       \<and> (passes_gates_api w req data \<longrightarrow>
            handler_api w req =
              (respond 402 (ErrorBody err_quota_api), [ReadBody, ParseBody, CreditCall]))"
proof -
  have "handler_api w req =
          (respond 402 (ErrorBody err_quota_api), [ReadBody, ParseBody, CreditCall])"
    if g: "passes_gates_api w req data"
  proof -
    from passes_gates_api_phone [OF g] obtain p where "extractPhoneNumber_api data = Inr p"
      by blast
    then show ?thesis
      using assms by (simp add: handler_api_gates [OF g] quota_stage_api_nonpositive)
  qed
  then show ?thesis
    using assms
    by (simp add: handler_p0_gates handler_idx_gates quota_stage_p0_sentinel
          quota_stage_idx_sentinel)
qed

text \<open>The amended claim C1 on the request of the scenario, the credit service answering \<open>-5\<close>.\<close>

theorem sentinel_answer_witness:
  "credit_service sentinel_world = Inr (JNum (- 5))
   \<and> passes_gates_p0 sentinel_world scenario_request scenario_payload
   \<and> passes_gates_idx (p0_helpers sentinel_world) sentinel_world scenario_request scenario_payload
        (JStr ''+966500000000'')
   \<and> passes_gates_api sentinel_world scenario_request scenario_payload
   \<and> handler_p0 sentinel_world scenario_request =
       (respond 500 (InternalBody ''Internal Server Error''
          (Error (err_credit_prefix_p0 @ err_sentinel_p0)) False),
        [ReadBody, ParseBody, CreditCall])
   \<and> handler_idx (p0_helpers sentinel_world) sentinel_world 0 scenario_request =
       (respond 500 (InternalBody ''Internal Server Error'' (Error err_sentinel_idx) False),
        [ReadBody, ParseBody, CreditCall], 0)
   \<and> handler_api sentinel_world scenario_request =
       (respond 402 (ErrorBody err_quota_api), [ReadBody, ParseBody, CreditCall])"
proof -
  have c: "credit_service sentinel_world = Inr (JNum (- 5))"
    by (simp add: sentinel_world_def)
  have g1: "passes_gates_p0 sentinel_world scenario_request scenario_payload"
    by code_simp
  have g2: "passes_gates_idx (p0_helpers sentinel_world) sentinel_world scenario_request
              scenario_payload (JStr ''+966500000000'')"
    by code_simp
  have g3: "passes_gates_api sentinel_world scenario_request scenario_payload"
    by code_simp
  show ?thesis
    using c g1 g2 g3
      sentinel_answer [OF c, of scenario_request scenario_payload "p0_helpers sentinel_world"
        "JStr ''+966500000000''" 0]
    by simp
qed

text \<open>
  Claim C6, as it stands: whenever the credit service returns a remaining quota that is
  at most \<open>0\<close>, the response has status 402. In \<open>src/unnamed/part_000\<close> the answer
  \<open>-5\<close> is at most \<open>0\<close> and the response has another status.
\<close>

theorem exhausted_quota_counterexample:
  "passes_gates_p0 sentinel_world scenario_request scenario_payload
   \<and> credit_service sentinel_world = Inr (JNum (- 5)) \<and> (- 5 :: int) \<le> 0
   \<and> status (fst (handler_p0 sentinel_world scenario_request)) \<noteq> 402"
  by code_simp

text \<open>
  Claim C6, amended: when the credit service returns a number \<open>n \<le> 0\<close> to a request
  that passed the gates, no dispatch is made; the response has status 402 in
  \<open>src/api/index.js\<close> for every such \<open>n\<close>, and in \<open>src/unnamed/part_000\<close> for every
  such \<open>n\<close> but \<open>-5\<close>, where the status is 500. The effects end with the credit call.
\<close>

theorem exhausted_quota:
  assumes "credit_service w = Inr (JNum n)" and "n \<le> 0"
  shows "(passes_gates_api w req data \<longrightarrow>
            handler_api w req =
              (respond 402 (ErrorBody err_quota_api), [ReadBody, ParseBody, CreditCall]))
       \<and> (passes_gates_p0 w req data \<and> n \<noteq> - 5 \<longrightarrow>
            handler_p0 w req =
              (respond 402 (ErrorBody ''SMS quota exceeded''), [ReadBody, ParseBody, CreditCall]))
       \<and> (passes_gates_p0 w req data \<and> n = - 5 \<longrightarrow>
            status (fst (handler_p0 w req)) = 500
            \<and> snd (handler_p0 w req) = [ReadBody, ParseBody, CreditCall])"
proof -
  have "handler_api w req =
          (respond 402 (ErrorBody err_quota_api), [ReadBody, ParseBody, CreditCall])"
    if g: "passes_gates_api w req data"
  proof -
    from passes_gates_api_phone [OF g] obtain p where "extractPhoneNumber_api data = Inr p"
      by blast
    then show ?thesis
      using assms by (simp add: handler_api_gates [OF g] quota_stage_api_nonpositive)
  qed
  then show ?thesis
    using assms
    by (auto simp: handler_p0_gates quota_stage_p0_sentinel quota_stage_p0_nonpositive
          respond_def)
qed

text \<open>The amended claim C6 on the request of the scenario, the credit service answering \<open>0\<close>.\<close>

theorem exhausted_quota_witness:
  "credit_service exhausted_world = Inr (JNum 0) \<and> (0 :: int) \<le> 0
   \<and> passes_gates_api exhausted_world scenario_request scenario_payload
   \<and> passes_gates_p0 exhausted_world scenario_request scenario_payload
   \<and> handler_api exhausted_world scenario_request =
       (respond 402 (ErrorBody err_quota_api), [ReadBody, ParseBody, CreditCall])
   \<and> handler_p0 exhausted_world scenario_request =
       (respond 402 (ErrorBody ''SMS quota exceeded''), [ReadBody, ParseBody, CreditCall])"
proof -
  have c: "credit_service exhausted_world = Inr (JNum 0)"
    by (simp add: exhausted_world_def)
  have g1: "passes_gates_api exhausted_world scenario_request scenario_payload"
    by code_simp
  have g2: "passes_gates_p0 exhausted_world scenario_request scenario_payload"
    by code_simp
  show ?thesis
    using c g1 g2 exhausted_quota [OF c, of scenario_request scenario_payload]
    by simp
qed

text \<open>
  In \<open>src/api/index.js\<close> an answer that is no number never reaches the comparison:
  \<open>checkCredit\<close> throws and the handler answers with status 500 after the credit call.
\<close>

lemma checkCredit_api_rejects:
  "credit_service w = Inr d \<Longrightarrow> \<not> is_number d \<Longrightarrow>
   checkCredit_api w = Inl (Error err_credit_failed_api)"
  by (simp add: checkCredit_api_def checkCredit_try_api_def)

lemma malformed_answer_api:
  "credit_service w = Inr d \<Longrightarrow> \<not> is_number d \<Longrightarrow> passes_gates_api w req data \<Longrightarrow>
   handler_api w req =
     (internal_api w (Error err_credit_failed_api), [ReadBody, ParseBody, CreditCall])"
  using passes_gates_api_phone [of w req data]
  by (auto simp: handler_api_gates quota_stage_api_def checkCredit_api_rejects)

text \<open>
  Claim C8 at the answer \<open>"unlimited"\<close>, a string: \<open>checkCredit\<close> of
  \<open>src/unnamed/part_000\<close> returns it, the comparison \<open>"unlimited" <= 0\<close> is false, the
  message is composed and dispatched, and the response has status 200 with
  \<open>remaining_quota\<close> NaN. \<open>checkCredit\<close> of \<open>src/api/index.js\<close> throws on the same
  answer, and the handler answers with status 500 without a dispatch.
\<close>

theorem text_answer_dispatches:
  "credit_service text_answer_world = Inr (JStr ''unlimited'')
   \<and> checkCredit_p0 text_answer_world = Inr (JStr ''unlimited'')
   \<and> handler_p0 text_answer_world scenario_request =
       (respond 200
          (JsonBody
             [(''success'', JBool True),
              (''message'', JStr ''SMS sent successfully''),
              (''remaining_quota'', JNaN)]),
        [ReadBody, ParseBody, CreditCall,
         Dispatch (JStr ''+966500000000'')
           (MsgText (tpl_create_p0_1 @ ''1001'' @ tpl_create_p0_2))])
   \<and> checkCredit_api text_answer_world = Inl (Error err_credit_failed_api)
   \<and> handler_api text_answer_world scenario_request =
       (respond 500 (InternalBody err_internal_api (Error err_credit_failed_api) False),
        [ReadBody, ParseBody, CreditCall])"
  by code_simp

section \<open>The header check\<close>





section \<open>The signature verifier\<close>

text \<open>
  \<open>verifyHmac\<close> of \<open>src/api/index.js\<close>, lines 96-114, returns a truth value on every
  input: whatever its \<open>try\<close> throws, it returns \<open>false\<close>.
\<close>

lemma verifyHmac_api_error_false:
  "verifyHmac_try_api w hmacHeader rawBody = Inl e \<Longrightarrow> \<not> verifyHmac_api w hmacHeader rawBody"
  by (simp add: verifyHmac_api_def)

lemma verifyHmac_api_length_mismatch:
  "length (base64_decode w hmacHeader) \<noteq> length (hmac_sha256 w secret rawBody) \<Longrightarrow>
   env_secret w = Some secret \<Longrightarrow> \<not> verifyHmac_api w hmacHeader rawBody"
  by (auto simp: verifyHmac_api_def verifyHmac_try_api_def timingSafeEqual_def)

lemma verifyHmac_api_no_secret:
  "env_secret w = None \<Longrightarrow> \<not> verifyHmac_api w hmacHeader rawBody"
  by (simp add: verifyHmac_api_def verifyHmac_try_api_def)

text \<open>
  Claim C2 at the signature header \<open>AAAA\<close>, which decodes to three bytes while the
  digest has 32: \<open>verifyHmac\<close> of \<open>src/unnamed/part_000\<close> and of the second document of
  \<open>src/api/index.js\<close> throws a RangeError, and the handler answers with status 500;
  \<open>verifyHmac\<close> of the first document of \<open>src/api/index.js\<close> returns \<open>false\<close>, and the
  handler answers with status 401.
\<close>

theorem short_signature_throws:
  "verifyHmac_p0 scenario_world ''AAAA'' scenario_body = Inl RangeError
   \<and> verifyHmac_api2 scenario_world ''AAAA'' scenario_body = Inl RangeError
   \<and> handler_p0 scenario_world short_signature_request =
       (respond 500 (InternalBody ''Internal Server Error'' RangeError False), [ReadBody])
   \<and> verifyHmac_api scenario_world ''AAAA'' scenario_body = False
   \<and> handler_api scenario_world short_signature_request =
       (respond 401 (ErrorBody err_hmac_api), [ReadBody])"
  by code_simp

section \<open>The payload extractor\<close>














text \<open>
  A value without a text: with the object \<open>{toString: "x"}\<close> at \<open>customer.phone\<close> the
  test of the pattern throws a TypeError, also when a later path holds a valid phone;
  \<open>extractPhoneNumber\<close> of \<open>src/unnamed/part_000\<close> returns the object.
\<close>

lemma phone_object_throws:
  "resolve_path text_key_payload ''customer.phone'' = JObj [(''toString'', JStr ''x'')]
   \<and> isValidPhone (JObj [(''toString'', JStr ''x'')]) = Inl TypeError
   \<and> extractPhoneNumber_api text_key_payload = Inl TypeError
   \<and> extractPhoneNumber_p0 text_key_payload = JObj [(''toString'', JStr ''x'')]"
  by code_simp

section \<open>The message composer\<close>

lemma get_prop_defined:
  "data \<noteq> JNull \<Longrightarrow> data \<noteq> JUndefined \<Longrightarrow> get_prop data k = Inr (get_member data k)"
  by (simp add: get_prop_def)

lemma converts_text: "converts v \<Longrightarrow> \<exists>s. js_to_string v = Inr s"
  by (cases "js_to_string v") (simp_all add: converts_def)

lemma converts_js_or: "converts v \<Longrightarrow> converts (js_or v (JStr s))"
  by (simp add: js_or_def converts_def)

lemma falsy_js_or: "\<not> truthy v \<Longrightarrow> js_to_string (js_or v (JStr s)) = Inr s"
  by (simp add: js_or_def)

lemma tpl_nonempty:
  "tpl_create_api_1 \<noteq> []" "tpl_cancelled_api_1 \<noteq> []" "tpl_updated_api_1 \<noteq> []"
  "tpl_paid_api_1 \<noteq> []" "tpl_fulfilled_api_1 \<noteq> []"
  "tpl_create_p0_1 \<noteq> []" "tpl_cancelled_p0_1 \<noteq> []" "tpl_updated_p0_1 \<noteq> []"
  "tpl_create_api2_1 \<noteq> []" "tpl_cancelled_api2_1 \<noteq> []" "tpl_updated_api2_1 \<noteq> []"
  "tpl_paid_api2_1 \<noteq> []" "tpl_fulfilled_api2_1 \<noteq> []"
  by (simp_all add: tpl_create_api_1_def tpl_cancelled_api_1_def tpl_updated_api_1_def
        tpl_paid_api_1_def tpl_fulfilled_api_1_def tpl_create_p0_1_def tpl_cancelled_p0_1_def
        tpl_updated_p0_1_def tpl_create_api2_1_def tpl_cancelled_api2_1_def
        tpl_updated_api2_1_def tpl_paid_api2_1_def tpl_fulfilled_api2_1_def)

lemma composer_api_recognized:
  assumes "data \<noteq> JNull" and "data \<noteq> JUndefined"
    and "converts (opt_chain (get_member data ''order'') ''order_number'')"
    and "converts (opt_chain (get_member data ''order'') ''financial_status'')"
    and "eventType \<in> set recognized_topics"
  shows "\<exists>s. s \<noteq> [] \<and> createNotificationMessage_api w eventType data = Inr (MsgText s)"
  using assms(1,2,5) converts_text [OF assms(3)] converts_text [OF assms(4)]
  by (auto simp: createNotificationMessage_api_def get_prop_defined literal_lookup_def
        msg_or_null_def recognized_topics_def Let_def tpl_nonempty)

lemma composer_api_other:
  assumes "data \<noteq> JNull" and "data \<noteq> JUndefined"
    and "converts (opt_chain (get_member data ''order'') ''order_number'')"
    and "converts (opt_chain (get_member data ''order'') ''financial_status'')"
    and "eventType \<notin> set recognized_topics"
    and "eventType \<notin> set object_prototype_keys"
  shows "createNotificationMessage_api w eventType data = Inr MsgNull"
  using assms(1,2,5,6) converts_text [OF assms(3)] converts_text [OF assms(4)]
  by (auto simp: createNotificationMessage_api_def get_prop_defined literal_lookup_def
        msg_or_null_def recognized_topics_def Let_def)

lemma composer_p0_recognized:
  assumes "data \<noteq> JNull" and "data \<noteq> JUndefined"
    and "converts (opt_chain (get_member data ''order'') ''order_number'')"
    and "converts (opt_chain (get_member data ''order'') ''financial_status'')"
    and "eventType \<in> set recognized_topics_p0"
  shows "\<exists>s. s \<noteq> [] \<and> createNotificationMessage_p0 w eventType data = Inr (MsgText s)"
  using assms(1,2,5) converts_text [OF converts_js_or [OF assms(3), of "''N/A''"]]
    converts_text [OF assms(4)]
  by (auto simp: createNotificationMessage_p0_def get_prop_defined literal_lookup_def
        recognized_topics_p0_def Let_def tpl_nonempty)

lemma composer_p0_other:
  assumes "data \<noteq> JNull" and "data \<noteq> JUndefined"
    and "converts (opt_chain (get_member data ''order'') ''order_number'')"
    and "converts (opt_chain (get_member data ''order'') ''financial_status'')"
    and "eventType \<notin> set recognized_topics_p0"
    and "eventType \<notin> set object_prototype_keys"
  shows "createNotificationMessage_p0 w eventType data = Inr MsgUndefined"
  using assms(1,2,5,6) converts_text [OF converts_js_or [OF assms(3), of "''N/A''"]]
    converts_text [OF assms(4)]
  by (auto simp: createNotificationMessage_p0_def get_prop_defined literal_lookup_def
        recognized_topics_p0_def Let_def)

text \<open>
  Claim C4, as it stands: the composer returns a message for each of the five topics.
  \<open>createNotificationMessage\<close> of \<open>src/unnamed/part_000\<close> returns \<open>undefined\<close> for
  \<open>orders/paid\<close> and for \<open>orders/fulfilled\<close>.
\<close>

theorem composer_topics_counterexample:
  "createNotificationMessage_p0 scenario_world ''orders/paid'' scenario_payload = Inr MsgUndefined
   \<and> createNotificationMessage_p0 scenario_world ''orders/fulfilled'' scenario_payload = Inr MsgUndefined"
  by code_simp

text \<open>
  Claim C4, amended: on every payload but \<open>null\<close> (and \<open>undefined\<close>) whose order number
  and financial status have a text (neither is an object with a key \<open>toString\<close> of its
  own, nor holds one), \<open>createNotificationMessage\<close> of \<open>src/api/index.js\<close> returns a
  message, a string that is not empty, when the topic is one of \<open>orders/create\<close>,
  \<open>orders/cancelled\<close>, \<open>orders/updated\<close>, \<open>orders/paid\<close>, \<open>orders/fulfilled\<close>, and
  \<open>null\<close> for every other topic that is not the name of a member of
  \<open>Object.prototype\<close>; \<open>createNotificationMessage\<close> of \<open>src/unnamed/part_000\<close> returns
  a message for the first three of these topics, and \<open>undefined\<close> for every other topic
  that is not such a name.
\<close>

theorem composer_topics:
  assumes "data \<noteq> JNull" and "data \<noteq> JUndefined"
    and "converts (opt_chain (get_member data ''order'') ''order_number'')"
    and "converts (opt_chain (get_member data ''order'') ''financial_status'')"
  shows "(eventType \<in> set recognized_topics \<longrightarrow>
            (\<exists>s. s \<noteq> [] \<and> createNotificationMessage_api w eventType data = Inr (MsgText s)))
       \<and> (eventType \<notin> set recognized_topics \<and> eventType \<notin> set object_prototype_keys \<longrightarrow>
            createNotificationMessage_api w eventType data = Inr MsgNull)
       \<and> (eventType \<in> set recognized_topics_p0 \<longrightarrow>
            (\<exists>s. s \<noteq> [] \<and> createNotificationMessage_p0 w eventType data = Inr (MsgText s)))
       \<and> (eventType \<notin> set recognized_topics_p0 \<and> eventType \<notin> set object_prototype_keys \<longrightarrow>
            createNotificationMessage_p0 w eventType data = Inr MsgUndefined)"
  using composer_api_recognized [OF assms] composer_api_other [OF assms]
    composer_p0_recognized [OF assms] composer_p0_other [OF assms]
  by blast

text \<open>
  The amended claim C4 on the payload of the scenario, at two topics.
\<close>

theorem composer_topics_witness:
  "scenario_payload \<noteq> JNull \<and> scenario_payload \<noteq> JUndefined
   \<and> converts (opt_chain (get_member scenario_payload ''order'') ''order_number'')
   \<and> converts (opt_chain (get_member scenario_payload ''order'') ''financial_status'')
   \<and> ''orders/paid'' \<in> set recognized_topics
   \<and> ''orders/paid'' \<notin> set recognized_topics_p0
   \<and> ''orders/paid'' \<notin> set object_prototype_keys
   \<and> ''orders/weird_event'' \<notin> set recognized_topics
   \<and> ''orders/weird_event'' \<notin> set object_prototype_keys
   \<and> (\<exists>s. s \<noteq> [] \<and>
         createNotificationMessage_api scenario_world ''orders/paid'' scenario_payload = Inr (MsgText s))
   \<and> createNotificationMessage_p0 scenario_world ''orders/paid'' scenario_payload = Inr MsgUndefined
   \<and> createNotificationMessage_api scenario_world ''orders/weird_event'' scenario_payload = Inr MsgNull"
proof -
  have d: "scenario_payload \<noteq> JNull" "scenario_payload \<noteq> JUndefined"
    by (simp_all add: scenario_payload_def)
  have c1: "converts (opt_chain (get_member scenario_payload ''order'') ''order_number'')"
    by code_simp
  have c2: "converts (opt_chain (get_member scenario_payload ''order'') ''financial_status'')"
    by code_simp
  have t: "''orders/paid'' \<in> set recognized_topics" "''orders/paid'' \<notin> set recognized_topics_p0"
    "''orders/paid'' \<notin> set object_prototype_keys"
    "''orders/weird_event'' \<notin> set recognized_topics"
    "''orders/weird_event'' \<notin> set object_prototype_keys"
    by (simp_all add: recognized_topics_def recognized_topics_p0_def object_prototype_keys_def)
  show ?thesis
    using d c1 c2 t composer_topics [OF d c1 c2, of "''orders/paid''" scenario_world]
      composer_topics [OF d c1 c2, of "''orders/weird_event''" scenario_world]
    by simp
qed

text \<open>
  A topic that names a member of \<open>Object.prototype\<close> finds that member in the table of
  templates, which is neither a message nor \<open>null\<close>.
\<close>

lemma composer_inherited:
  "createNotificationMessage_api scenario_world ''constructor'' scenario_payload =
     Inr (MsgInherited ''constructor'')"
  by code_simp

text \<open>
  An order number without a text: the table of templates is built before the topic is
  looked up, each template converts its fields, and the conversion of the object
  \<open>{toString: 1}\<close> throws a TypeError in the three composers.
\<close>

lemma composer_object_throws:
  "createNotificationMessage_api scenario_world ''orders/create'' text_key_order_payload = Inl TypeError
   \<and> createNotificationMessage_p0 scenario_world ''orders/create'' text_key_order_payload = Inl TypeError
   \<and> createMessage scenario_world ''orders/create'' text_key_order_payload = Inl TypeError"
  by code_simp

text \<open>
  What the composers do for a missing order number: \<open>createNotificationMessage\<close> of
  \<open>src/unnamed/part_000\<close> (line 99) and \<open>createMessage\<close> (line 298) put a placeholder
  in its place.
\<close>

lemma order_number_placeholder:
  assumes "data \<noteq> JNull" and "data \<noteq> JUndefined"
    and "\<not> truthy (opt_chain (get_member data ''order'') ''order_number'')"
    and "converts (opt_chain (get_member data ''order'') ''financial_status'')"
  shows "createNotificationMessage_p0 w ''orders/create'' data =
           Inr (MsgText (tpl_create_p0_1 @ ''N/A'' @ tpl_create_p0_2))
       \<and> createNotificationMessage_p0 w ''orders/cancelled'' data =
           Inr (MsgText (tpl_cancelled_p0_1 @ ''N/A'' @ tpl_cancelled_p0_2 @ store_contact w))
       \<and> createMessage w ''orders/create'' data =
           Inr (MsgText (tpl_create_api2_1 @ placeholder_api2 @ tpl_create_api2_2))
       \<and> createMessage w ''orders/paid'' data =
           Inr (MsgText (tpl_paid_api2_1 @ placeholder_api2 @ tpl_paid_api2_2))"
  using assms(1,2) falsy_js_or [OF assms(3)] converts_text [OF assms(4)]
  by (auto simp: createNotificationMessage_p0_def createMessage_def get_prop_defined Let_def
        literal_lookup_def msg_or_null_def tpl_nonempty)

text \<open>
  Claim C7 at the topic \<open>orders/updated\<close> and the payload of the scenario, which has an
  order number and no financial status: \<open>createNotificationMessage\<close> of
  \<open>src/unnamed/part_000\<close> (line 104) prints the missing status as \<open>undefined\<close>, the
  message holds no \<open>N/A\<close>, and the handler dispatches that message and responds 200. The
  same composer puts \<open>N/A\<close> in the place of a missing order number (line 99), where
  \<open>createNotificationMessage\<close> of \<open>src/api/index.js\<close> prints \<open>undefined\<close>; and on an
  order number that is the object \<open>{toString: 1}\<close> the composition throws a TypeError.
\<close>

theorem missing_status_undefined:
  "createNotificationMessage_p0 scenario_world ''orders/updated'' scenario_payload =
     Inr (MsgText (tpl_updated_p0_1 @ ''1001'' @ tpl_updated_p0_2 @ ''undefined''))
   \<and> \<not> sublist ''N/A'' (tpl_updated_p0_1 @ ''1001'' @ tpl_updated_p0_2 @ ''undefined'')
   \<and> handler_p0 scenario_world updated_request =
       (respond 200
          (JsonBody
             [(''success'', JBool True),
              (''message'', JStr ''SMS sent successfully''),
              (''remaining_quota'', JNum 4)]),
        [ReadBody, ParseBody, CreditCall,
         Dispatch (JStr ''+966500000000'')
           (MsgText (tpl_updated_p0_1 @ ''1001'' @ tpl_updated_p0_2 @ ''undefined''))])
   \<and> createNotificationMessage_p0 scenario_world ''orders/create'' no_order_payload =
       Inr (MsgText (tpl_create_p0_1 @ ''N/A'' @ tpl_create_p0_2))
   \<and> createNotificationMessage_api scenario_world ''orders/create'' no_order_payload =
       Inr (MsgText (tpl_create_api_1 @ ''undefined'' @ tpl_create_api_2))
   \<and> createNotificationMessage_p0 scenario_world ''orders/create'' text_key_order_payload =
       Inl TypeError"
  by code_simp

section \<open>Scenario A\<close>

lemma quota_stage_api_five:
  assumes "credit_service w = Inr (JNum 5)"
  shows "quota_stage_api w eventType data phone =
           apsnd ((#) CreditCall) (compose_stage_api w eventType data phone (JNum 5))"
  using assms
  by (simp add: quota_stage_api_def checkCredit_api_def checkCredit_try_api_def is_number_def)

lemma quota_stage_p0_five:
  assumes "credit_service w = Inr (JNum 5)"
  shows "quota_stage_p0 w eventType data phone =
           apsnd ((#) CreditCall) (compose_stage_p0 w eventType data phone (JNum 5))"
  using assms
  by (simp add: quota_stage_p0_def checkCredit_p0_def)

lemma quota_stage_idx_five:
  assumes "credit_service w = Inr (JNum 5)"
  shows "quota_stage_idx hs w sentCount eventType data phone =
           apsnd (apfst ((#) CreditCall)) (compose_stage_idx hs w sentCount eventType data phone)"
  using assms
  by (simp add: quota_stage_idx_def checkCredit_idx_def)

lemma scenario_phone_api: "extractPhoneNumber_api scenario_payload = Inr (JStr ''+966500000000'')"
  by code_simp

lemma scenario_phone_p0: "extractPhoneNumber_p0 scenario_payload = JStr ''+966500000000''"
  by code_simp

lemma scenario_message_api:
  "createNotificationMessage_api w ''orders/create'' scenario_payload =
     Inr (MsgText (tpl_create_api_1 @ ''1001'' @ tpl_create_api_2))"
  by (simp add: createNotificationMessage_api_def scenario_payload_def get_prop_def get_member_def
        opt_chain_def literal_lookup_def msg_or_null_def Let_def tpl_create_api_1_def)

lemma scenario_message_p0:
  "createNotificationMessage_p0 w ''orders/create'' scenario_payload =
     Inr (MsgText (tpl_create_p0_1 @ ''1001'' @ tpl_create_p0_2))"
  by (simp add: createNotificationMessage_p0_def scenario_payload_def get_prop_def get_member_def
        opt_chain_def literal_lookup_def js_or_def Let_def)

text \<open>
  Claim C5, as it stands: the response of scenario A carries \<open>remaining_quota = 4\<close> and the
  sms id. The response of \<open>src/unnamed/part_000\<close> has no field \<open>sms_id\<close>, and the
  response of \<open>src/index.js\<close> (here with the helpers of part_000) has no field
  \<open>remaining_quota\<close>.
\<close>

theorem scenario_a_counterexample:
  "status (fst (handler_p0 scenario_world scenario_request)) = 200
   \<and> json_field (fst (handler_p0 scenario_world scenario_request)) ''remaining_quota'' = Some (JNum 4)
   \<and> json_field (fst (handler_p0 scenario_world scenario_request)) ''sms_id'' = None
   \<and> status (fst (handler_idx (p0_helpers scenario_world) scenario_world 0 scenario_request)) = 200
   \<and> json_field (fst (handler_idx (p0_helpers scenario_world) scenario_world 0 scenario_request))
        ''remaining_quota'' = None"
  by code_simp

text \<open>
  Claim C5, amended: for a request that passed the gates with topic \<open>orders/create\<close> and
  the payload of scenario A, the credit service answering \<open>5\<close> and the gateway accepting
  the message, the handlers of \<open>src/api/index.js\<close> and of \<open>src/unnamed/part_000\<close>
  dispatch once, with phone \<open>+966500000000\<close> and a message that contains \<open>1001\<close>, and
  respond with status 200 and \<open>remaining_quota = 4\<close>; \<open>src/api/index.js\<close> adds
  \<open>sms_id\<close>, the \<open>SMSID\<close> of the gateway's answer, and \<open>src/unnamed/part_000\<close> has no
  such field. The handler of \<open>src/index.js\<close>, its counter below \<open>MAX_QUOTA\<close>, dispatches
  once, responds with status 200 and the two counters \<open>sent\<close> and \<open>remaining\<close>, and
  adds one to \<open>sentCount\<close>.
\<close>

theorem scenario_a:
  assumes "header req ''x-shopify-topic'' = ''orders/create''"
    and "credit_service w = Inr (JNum 5)"
  shows "(passes_gates_api w req scenario_payload
          \<and> sms_gateway w (JStr ''+966500000000'')
               (MsgText (tpl_create_api_1 @ ''1001'' @ tpl_create_api_2)) = Inr d
          \<and> opt_chain d ''Status'' = JStr ''Success'' \<longrightarrow>
            handler_api w req =
              (respond 200
                 (JsonBody
                    [(''success'', JBool True),
                     (''message'', JStr ok_message_api),
                     (''remaining_quota'', JNum 4),
                     (''sms_id'', get_member d ''SMSID'')]),
               [ReadBody, ParseBody, CreditCall,
                Dispatch (JStr ''+966500000000'')
                  (MsgText (tpl_create_api_1 @ ''1001'' @ tpl_create_api_2))]))
       \<and> (passes_gates_p0 w req scenario_payload
          \<and> sms_gateway w (JStr ''+966500000000'')
               (MsgText (tpl_create_p0_1 @ ''1001'' @ tpl_create_p0_2)) = Inr d
          \<and> opt_chain d ''Status'' = JStr ''Success'' \<longrightarrow>
            handler_p0 w req =
              (respond 200
                 (JsonBody
                    [(''success'', JBool True),
                     (''message'', JStr ''SMS sent successfully''),
                     (''remaining_quota'', JNum 4)]),
               [ReadBody, ParseBody, CreditCall,
                Dispatch (JStr ''+966500000000'')
                  (MsgText (tpl_create_p0_1 @ ''1001'' @ tpl_create_p0_2))]))
       \<and> (passes_gates_idx hs w req scenario_payload phone
          \<and> createNotificationMessage hs ''orders/create'' scenario_payload = Inr message
          \<and> msg_truthy message
          \<and> sentCount < MAX_QUOTA
          \<and> sms_gateway w phone message = Inr d
          \<and> opt_chain d ''Status'' = JStr ''Success'' \<longrightarrow>
            handler_idx hs w sentCount req =
              (respond 200
                 (JsonBody
                    [(''success'', JBool True),
                     (''message'', JStr ''SMS sent successfully''),
                     (''quota'',
                        JObj [(''sent'', JNum (int (sentCount + 1))),
                              (''remaining'', JNum (int MAX_QUOTA - int (sentCount + 1)))])]),
               [ReadBody, ParseBody, CreditCall, Dispatch phone message],
               sentCount + 1))
       \<and> sublist ''1001'' (tpl_create_api_1 @ ''1001'' @ tpl_create_api_2)
       \<and> sublist ''1001'' (tpl_create_p0_1 @ ''1001'' @ tpl_create_p0_2)"
proof -
  have api: "handler_api w req =
              (respond 200
                 (JsonBody
                    [(''success'', JBool True),
                     (''message'', JStr ok_message_api),
                     (''remaining_quota'', JNum 4),
                     (''sms_id'', get_member d ''SMSID'')]),
               [ReadBody, ParseBody, CreditCall,
                Dispatch (JStr ''+966500000000'')
                  (MsgText (tpl_create_api_1 @ ''1001'' @ tpl_create_api_2))])"
    if g: "passes_gates_api w req scenario_payload"
      and s: "sms_gateway w (JStr ''+966500000000'')
               (MsgText (tpl_create_api_1 @ ''1001'' @ tpl_create_api_2)) = Inr d"
      and o: "opt_chain d ''Status'' = JStr ''Success''"
    unfolding handler_api_gates [OF g scenario_phone_api] quota_stage_api_five [OF assms(2)]
      assms(1)
    using s o
    by (simp add: compose_stage_api_def scenario_message_api send_stage_api_def sendSMS_api_def
          tpl_nonempty)
  have p0: "handler_p0 w req =
              (respond 200
                 (JsonBody
                    [(''success'', JBool True),
                     (''message'', JStr ''SMS sent successfully''),
                     (''remaining_quota'', JNum 4)]),
               [ReadBody, ParseBody, CreditCall,
                Dispatch (JStr ''+966500000000'')
                  (MsgText (tpl_create_p0_1 @ ''1001'' @ tpl_create_p0_2))])"
    if g: "passes_gates_p0 w req scenario_payload"
      and s: "sms_gateway w (JStr ''+966500000000'')
               (MsgText (tpl_create_p0_1 @ ''1001'' @ tpl_create_p0_2)) = Inr d"
      and o: "opt_chain d ''Status'' = JStr ''Success''"
    unfolding handler_p0_gates [OF g] quota_stage_p0_five [OF assms(2)] assms(1)
    using s o
    by (simp add: compose_stage_p0_def scenario_message_p0 scenario_phone_p0
          send_stage_p0_def sendSMS_p0_def tpl_nonempty)
  have idx: "handler_idx hs w sentCount req =
              (respond 200
                 (JsonBody
                    [(''success'', JBool True),
                     (''message'', JStr ''SMS sent successfully''),
                     (''quota'',
                        JObj [(''sent'', JNum (int (sentCount + 1))),
                              (''remaining'', JNum (int MAX_QUOTA - int (sentCount + 1)))])]),
               [ReadBody, ParseBody, CreditCall, Dispatch phone message],
               sentCount + 1)"
    if g: "passes_gates_idx hs w req scenario_payload phone"
      and m: "createNotificationMessage hs ''orders/create'' scenario_payload = Inr message"
      and t: "msg_truthy message"
      and q: "sentCount < MAX_QUOTA"
      and s: "sms_gateway w phone message = Inr d"
      and o: "opt_chain d ''Status'' = JStr ''Success''"
    unfolding handler_idx_gates [OF g] quota_stage_idx_five [OF assms(2)] assms(1)
    using m t q s o
    by (simp add: compose_stage_idx_def send_stage_idx_def sendSMS_idx_def sendSMS_reply_idx_def)
  have s1: "sublist ''1001'' (tpl_create_api_1 @ ''1001'' @ tpl_create_api_2)"
    by (rule sublist_appendI)
  have s2: "sublist ''1001'' (tpl_create_p0_1 @ ''1001'' @ tpl_create_p0_2)"
    by (rule sublist_appendI)
  from api p0 idx s1 s2 show ?thesis by blast
qed

text \<open>The amended claim C5 on the request and the surroundings of the scenario.\<close>

theorem scenario_a_witness:
  "header scenario_request ''x-shopify-topic'' = ''orders/create''
   \<and> credit_service scenario_world = Inr (JNum 5)
   \<and> passes_gates_api scenario_world scenario_request scenario_payload
   \<and> sms_gateway scenario_world (JStr ''+966500000000'')
        (MsgText (tpl_create_api_1 @ ''1001'' @ tpl_create_api_2)) = Inr gateway_success
   \<and> opt_chain gateway_success ''Status'' = JStr ''Success''
   \<and> handler_api scenario_world scenario_request =
       (respond 200
          (JsonBody
             [(''success'', JBool True),
              (''message'', JStr ok_message_api),
              (''remaining_quota'', JNum 4),
              (''sms_id'', JStr ''sms-0001'')]),
        [ReadBody, ParseBody, CreditCall,
         Dispatch (JStr ''+966500000000'')
           (MsgText (tpl_create_api_1 @ ''1001'' @ tpl_create_api_2))])"
proof -
  have t: "header scenario_request ''x-shopify-topic'' = ''orders/create''"
    by (simp add: header_def scenario_request_def scenario_headers_def)
  have c: "credit_service scenario_world = Inr (JNum 5)"
    by (simp add: scenario_world_def)
  have g: "passes_gates_api scenario_world scenario_request scenario_payload"
    by code_simp
  have s: "sms_gateway scenario_world (JStr ''+966500000000'')
        (MsgText (tpl_create_api_1 @ ''1001'' @ tpl_create_api_2)) = Inr gateway_success"
    by (simp add: scenario_world_def)
  have o: "opt_chain gateway_success ''Status'' = JStr ''Success''"
    by (simp add: gateway_success_def opt_chain_def get_member_def)
  have i: "get_member gateway_success ''SMSID'' = JStr ''sms-0001''"
    by (simp add: gateway_success_def get_member_def)
  show ?thesis
    using t c g s o i scenario_a [OF t c, of gateway_success]
    by simp
qed

section \<open>The session counter\<close>


lemma status_respond [simp]: "status (respond code b) = code"
  by (simp add: respond_def)

lemma status_internal_idx [simp]: "status (internal_idx e) = 500"
  by (simp add: internal_idx_def)

lemma status_success_idx [simp]: "status (success_idx n) = 200"
  by (simp add: success_idx_def)

lemma read_effect_quiet [simp]: "filter is_dispatch (read_effect hs) = []"
  by (simp add: read_effect_def is_dispatch_def split: option.splits)


subsection \<open>One request, served alone\<close>











subsection \<open>At the ceiling\<close>









subsection \<open>A request that a fresh counter would serve\<close>






text \<open>
  The file as it stands: each of the four helpers is missing, the first call throws a
  ReferenceError before the body is read, and every POST request with the three headers
  is answered with status 500, the counter unchanged.
\<close>

lemma handler_idx_as_it_stands:
  assumes "req_method req = ''POST''"
    and "\<not> header_missing req ''x-shopify-topic''"
    and "\<not> header_missing req ''x-shopify-shop-domain''"
    and "\<not> header_missing req ''x-shopify-hmac-sha256''"
  shows "handler_idx undefined_helpers w sentCount req =
           (respond 500 (InternalBody ''Internal Server Error'' ReferenceError False),
            [], sentCount)"
  using assms
  by (simp add: handler_idx_def undefined_helpers_def internal_idx_def Let_def getRawBody_def
        read_effect_def)

subsection \<open>From one await to the next\<close>



lemma resume_guard:
  assumes "MAX_QUOTA \<le> sentCount"
    and "resume hs w req (AwaitCredit data phone, evs, sentCount) = (t', evs', sentCount')"
  shows "(\<exists>r. t' = Finished r \<and> status r \<noteq> 200) \<and> evs' = evs \<and> sentCount' = sentCount"
  using assms
  by (auto simp: after_credit_idx_def split: sum.splits if_splits)



subsection \<open>The file as it stands\<close>








end
